theory Spec2Isabelle
  imports Main "HOL-Library.AList" "HOL-Library.List_Lexorder" "HOL-Library.Char_ord"
begin

section \<open>The peer-connection coordinator of \<^verbatim>\<open>src/lib/webrtc.ts\<close>\<close>

text \<open>
  A shallow embedding of the class \<^verbatim>\<open>WebRTCManager\<close>. The fields of the class are the
  fields of the record \<open>manager\<close>; every method is a function that takes the manager and
  returns the updated one. Each handler is run to completion: the embedding does not
  interleave two handlers at an \<^verbatim>\<open>await\<close>. The message handlers and the public
  \<^verbatim>\<open>async\<close> methods return \<open>error + 'a\<close>, \<open>Inl\<close> being a rejected promise; a private method
  whose body lets no rejection out returns the manager.

  The browser and the realtime client are not part of the repository. Their operations are
  written down in the next two subsections from their public interface; every place where
  they may reject for a reason the manager cannot see is decided by a parameter
  \<open>env :: platform\<close>, so that a theorem about a handler holds for every behaviour of the
  platform.
\<close>

subsection \<open>Platform values\<close>

datatype error = InvalidStateError | OperationError | NotAllowedError | TypeError | QueryError

datatype track_kind = Audio | Video

record track =
  kind :: track_kind
  label :: string
  enabled :: bool
  stopped :: bool

type_synonym media_stream = "track list"

definition getVideoTracks :: "media_stream \<Rightarrow> track list" where
  "getVideoTracks ms = filter (\<lambda>t. kind t = Video) ms"

definition getAudioTracks :: "media_stream \<Rightarrow> track list" where
  "getAudioTracks ms = filter (\<lambda>t. kind t = Audio) ms"

text \<open>\<^verbatim>\<open>tracks[0]\<close>: \<^verbatim>\<open>undefined\<close> on an empty array.\<close>

definition first_track :: "track list \<Rightarrow> track option" where
  "first_track ts = (case ts of [] \<Rightarrow> None | t # _ \<Rightarrow> Some t)"

datatype signaling_state =
  Stable | HaveLocalOffer | HaveRemoteOffer | HaveLocalPranswer | HaveRemotePranswer | SigClosed

datatype connection_state =
  ConnNew | Connecting | Connected | Disconnected | Failed | ConnClosed

datatype sdp_type = Offer | Answer | Pranswer | Rollback

text \<open>
  A session description. Its text is opaque to the manager; the model keeps who made it:
  the participant and the serial number of the connection object that created it.
\<close>

record session_description =
  sdp_type :: sdp_type
  sdp_owner :: string
  sdp_conn :: nat

text \<open>
  The calls of the platform that may reject whatever the signalling state is (a malformed
  description, a transport that is gone). \<open>env c\<close> holds when call \<open>c\<close> rejects; the
  number is the serial of the connection object.
\<close>

datatype platform_call =
  CreateOffer nat | CreateAnswer nat | SetLocalDescription nat | SetRemoteDescription nat
| AddIceCandidate nat | GetStats nat

type_synonym platform = "platform_call \<Rightarrow> bool"

definition no_faults :: platform where
  "no_faults = (\<lambda>_. False)"

subsection \<open>\<^verbatim>\<open>RTCPeerConnection\<close>\<close>

text \<open>
  One connection object. \<open>conn_owner\<close> and \<open>conn_id\<close> are its identity (the manager that
  made it and a serial number); \<open>senders\<close> holds the track of every sender, in the order
  of \<^verbatim>\<open>getSenders()\<close>; \<open>replaceTrackCalls\<close> lists the argument of every
  \<^verbatim>\<open>replaceTrack\<close> call on one of its senders, oldest first.
\<close>

record rtc_peer =
  conn_owner :: string
  conn_id :: nat
  signalingState :: signaling_state
  connectionState :: connection_state
  localDescription :: "session_description option"
  remoteDescription :: "session_description option"
  senders :: "track option list"
  remoteCandidates :: "string list"
  replaceTrackCalls :: "track option list"

definition new_RTCPeerConnection :: "string \<Rightarrow> nat \<Rightarrow> rtc_peer" where
  "new_RTCPeerConnection owner n =
     \<lparr>conn_owner = owner, conn_id = n, signalingState = Stable, connectionState = ConnNew,
      localDescription = None, remoteDescription = None, senders = [],
      remoteCandidates = [], replaceTrackCalls = []\<rparr>"

definition rtc_close :: "rtc_peer \<Rightarrow> rtc_peer" where
  "rtc_close p = p\<lparr>signalingState := SigClosed, connectionState := ConnClosed\<rparr>"

definition addTrack :: "rtc_peer \<Rightarrow> track \<Rightarrow> rtc_peer" where
  "addTrack p t = p\<lparr>senders := senders p @ [Some t]\<rparr>"

definition createOffer :: "platform \<Rightarrow> rtc_peer \<Rightarrow> error + session_description" where
  "createOffer env p =
     (if signalingState p = SigClosed then Inl InvalidStateError
      else if env (CreateOffer (conn_id p)) then Inl OperationError
      else Inr \<lparr>sdp_type = Offer, sdp_owner = conn_owner p, sdp_conn = conn_id p\<rparr>)"

definition createAnswer :: "platform \<Rightarrow> rtc_peer \<Rightarrow> error + session_description" where
  "createAnswer env p =
     (if signalingState p \<noteq> HaveRemoteOffer \<and> signalingState p \<noteq> HaveLocalPranswer
      then Inl InvalidStateError
      else if env (CreateAnswer (conn_id p)) then Inl OperationError
      else Inr \<lparr>sdp_type = Answer, sdp_owner = conn_owner p, sdp_conn = conn_id p\<rparr>)"

text \<open>
  The signalling state machine of the platform: the state a description of each type
  leads to, \<open>None\<close> where the platform rejects with \<^verbatim>\<open>InvalidStateError\<close>. The implicit
  rollback of newer browsers (a remote offer while a local offer is pending) is left out:
  no handler of the class applies an offer in that state.
\<close>

fun local_transition :: "signaling_state \<Rightarrow> sdp_type \<Rightarrow> signaling_state option" where
  "local_transition Stable Offer = Some HaveLocalOffer"
| "local_transition HaveLocalOffer Offer = Some HaveLocalOffer"
| "local_transition HaveRemoteOffer Answer = Some Stable"
| "local_transition HaveLocalPranswer Answer = Some Stable"
| "local_transition HaveRemoteOffer Pranswer = Some HaveLocalPranswer"
| "local_transition HaveLocalPranswer Pranswer = Some HaveLocalPranswer"
| "local_transition HaveLocalOffer Rollback = Some Stable"
| "local_transition HaveRemoteOffer Rollback = Some Stable"
| "local_transition _ _ = None"

fun remote_transition :: "signaling_state \<Rightarrow> sdp_type \<Rightarrow> signaling_state option" where
  "remote_transition Stable Offer = Some HaveRemoteOffer"
| "remote_transition HaveRemoteOffer Offer = Some HaveRemoteOffer"
| "remote_transition HaveLocalOffer Answer = Some Stable"
| "remote_transition HaveRemotePranswer Answer = Some Stable"
| "remote_transition HaveLocalOffer Pranswer = Some HaveRemotePranswer"
| "remote_transition HaveRemotePranswer Pranswer = Some HaveRemotePranswer"
| "remote_transition HaveLocalOffer Rollback = Some Stable"
| "remote_transition HaveRemoteOffer Rollback = Some Stable"
| "remote_transition _ _ = None"

definition setLocalDescription ::
  "platform \<Rightarrow> rtc_peer \<Rightarrow> session_description \<Rightarrow> error + rtc_peer" where
  "setLocalDescription env p d =
     (case local_transition (signalingState p) (sdp_type d) of
        None \<Rightarrow> Inl InvalidStateError
      | Some st \<Rightarrow>
          if env (SetLocalDescription (conn_id p)) then Inl OperationError
          else Inr (p\<lparr>signalingState := st,
                      localDescription := (if sdp_type d = Rollback then None else Some d)\<rparr>))"

definition setRemoteDescription ::
  "platform \<Rightarrow> rtc_peer \<Rightarrow> session_description \<Rightarrow> error + rtc_peer" where
  "setRemoteDescription env p d =
     (case remote_transition (signalingState p) (sdp_type d) of
        None \<Rightarrow> Inl InvalidStateError
      | Some st \<Rightarrow>
          if env (SetRemoteDescription (conn_id p)) then Inl OperationError
          else Inr (p\<lparr>signalingState := st,
                      remoteDescription := (if sdp_type d = Rollback then None else Some d)\<rparr>))"

definition addIceCandidate :: "platform \<Rightarrow> rtc_peer \<Rightarrow> string \<Rightarrow> error + rtc_peer" where
  "addIceCandidate env p c =
     (if signalingState p = SigClosed \<or> remoteDescription p = None then Inl InvalidStateError
      else if env (AddIceCandidate (conn_id p)) then Inl OperationError
      else Inr (p\<lparr>remoteCandidates := remoteCandidates p @ [c]\<rparr>))"

text \<open>
  \<^verbatim>\<open>peer.getSenders().find(s => s.track && s.track.kind === 'video')\<close> followed by
  \<^verbatim>\<open>sender.replaceTrack(t)\<close>: the first sender that carries a video track gets \<open>t\<close>;
  a connection with no such sender is left as it is. The argument is nullable:
  \<^verbatim>\<open>replaceTrack(null)\<close> leaves the sender without a track.
\<close>

fun replace_first_video :: "track option list \<Rightarrow> track option \<Rightarrow> track option list" where
  "replace_first_video [] t = []"
| "replace_first_video (None # ss) t = None # replace_first_video ss t"
| "replace_first_video (Some u # ss) t =
     (if kind u = Video then t # ss else Some u # replace_first_video ss t)"

definition has_video_sender :: "rtc_peer \<Rightarrow> bool" where
  "has_video_sender p =
     list_ex (\<lambda>u. case u of None \<Rightarrow> False | Some t \<Rightarrow> kind t = Video) (senders p)"

definition replaceVideoTrack :: "rtc_peer \<Rightarrow> track option \<Rightarrow> rtc_peer" where
  "replaceVideoTrack p t =
     (if has_video_sender p
      then p\<lparr>senders := replace_first_video (senders p) t,
             replaceTrackCalls := replaceTrackCalls p @ [t]\<rparr>
      else p)"

subsection \<open>Signalling messages\<close>

text \<open>
  The payloads of the broadcast events. The \<^verbatim>\<open>timestamp\<close> field is written by every sender
  and read by no handler; the model leaves it out.
\<close>

record offer_data =
  o_from :: string
  o_to :: string
  o_offer :: session_description
  o_name :: string

record answer_data =
  a_from :: string
  a_to :: string
  a_answer :: session_description
  a_name :: string

record ice_data =
  c_from :: string
  c_to :: string
  c_candidate :: string

record join_data =
  j_participantId :: string
  j_name :: string

datatype broadcast =
  OfferEvent offer_data
| AnswerEvent answer_data
| IceCandidateEvent ice_data
| UserJoinedEvent join_data
| UserLeftEvent string
| HandRaisedEvent string string bool
| MediaStateChangedEvent string bool bool

subsection \<open>The manager\<close>

record PeerConnection =
  peerId :: string
  peer :: rtc_peer
  name :: string

text \<open>What a \<^verbatim>\<open>setTimeout\<close> callback of the class does when it fires.\<close>

datatype timer_action =
  Resubscribe
| CheckParticipants
| Reconnect string string
| DisconnectedGrace nat string string
| Reannounce

text \<open>
  The fields of the class, then the state of its collaborators:
  \<^item> \<open>peers\<close> is the \<^verbatim>\<open>Map\<close>, as an association list in insertion order;
  \<^item> \<open>detached\<close> holds the connection objects the map no longer refers to (they live on in
    the closures of their event handlers);
  \<^item> \<open>next_conn\<close> numbers the connection objects;
  \<^item> \<open>sent\<close> lists the payload of every \<^verbatim>\<open>signalingChannel.send\<close>, oldest first;
  \<^item> \<open>signalingSubscribed\<close>, \<open>presenceSubscribed\<close> and \<open>presenceTracked\<close> are the state of the
    two channels;
  \<^item> \<open>timeouts\<close> lists every \<^verbatim>\<open>setTimeout\<close> call (delay in milliseconds, callback), oldest
    first; \<open>activeIntervals\<close> holds the handles of the running \<^verbatim>\<open>setInterval\<close> timers and
    \<open>next_timer\<close> is the next handle (handles are positive, so a stored handle is truthy);
  \<^item> \<open>peerLeftCalls\<close> lists the argument of every call of the peer-left callback.
\<close>

record manager =
  localStream :: "media_stream option"
  peers :: "(string \<times> PeerConnection) list"
  meetingId :: string
  participantId :: string
  participantName :: string
  onPeerLeftCallback :: bool
  isInitialized :: bool
  reconnectAttempts :: nat
  maxReconnectAttempts :: nat
  heartbeatInterval :: "nat option"
  participantCheckInterval :: "nat option"
  backgroundBlurEnabled :: bool
  detached :: "rtc_peer list"
  next_conn :: nat
  sent :: "broadcast list"
  signalingSubscribed :: bool
  presenceSubscribed :: bool
  presenceTracked :: bool
  timeouts :: "(nat \<times> timer_action) list"
  activeIntervals :: "nat list"
  next_timer :: nat
  peerLeftCalls :: "string list"

text \<open>The operations of the \<^verbatim>\<open>Map\<close>.\<close>

definition peers_get :: "manager \<Rightarrow> string \<Rightarrow> PeerConnection option" where
  "peers_get s k = map_of (peers s) k"

definition peers_has :: "manager \<Rightarrow> string \<Rightarrow> bool" where
  "peers_has s k = (peers_get s k \<noteq> None)"

definition unreferenced :: "manager \<Rightarrow> string \<Rightarrow> rtc_peer list" where
  "unreferenced s k = (case peers_get s k of None \<Rightarrow> [] | Some pc \<Rightarrow> [peer pc])"

definition peers_set :: "manager \<Rightarrow> string \<Rightarrow> PeerConnection \<Rightarrow> manager" where
  "peers_set s k pc =
     s\<lparr>peers := AList.update k pc (peers s), detached := detached s @ unreferenced s k\<rparr>"

definition peers_delete :: "manager \<Rightarrow> string \<Rightarrow> manager" where
  "peers_delete s k =
     s\<lparr>peers := AList.delete k (peers s), detached := detached s @ unreferenced s k\<rparr>"

definition peers_clear :: "manager \<Rightarrow> manager" where
  "peers_clear s = s\<lparr>peers := [], detached := detached s @ map (peer \<circ> snd) (peers s)\<rparr>"

text \<open>A method call on the connection object stored under a key.\<close>

definition with_peer :: "manager \<Rightarrow> string \<Rightarrow> rtc_peer \<Rightarrow> manager" where
  "with_peer s k p = s\<lparr>peers := AList.map_entry k (\<lambda>pc. pc\<lparr>peer := p\<rparr>) (peers s)\<rparr>"

definition send :: "manager \<Rightarrow> broadcast \<Rightarrow> manager" where
  "send s m = s\<lparr>sent := sent s @ [m]\<rparr>"

definition setTimeout :: "manager \<Rightarrow> timer_action \<Rightarrow> nat \<Rightarrow> manager" where
  "setTimeout s act delay = s\<lparr>timeouts := timeouts s @ [(delay, act)]\<rparr>"

subsection \<open>Creating a connection (lines 395-527)\<close>

text \<open>
  \<^verbatim>\<open>createPeerConnection\<close>: a new connection object gets the tracks of the local stream (the
  encoding parameters set on each sender play no part in signalling and are left out), the
  record is stored in the map, and the initiator creates an offer, applies it and
  broadcasts it. A rejection inside the \<^verbatim>\<open>try\<close> block deletes the record again. The event
  handlers the method installs are the functions \<open>onconnectionstatechange\<close> and
  \<open>onicecandidate\<close> below.
\<close>

definition attach_local_tracks :: "manager \<Rightarrow> rtc_peer \<Rightarrow> rtc_peer" where
  "attach_local_tracks s p =
     (case localStream s of None \<Rightarrow> p | Some ls \<Rightarrow> fold (\<lambda>t p'. addTrack p' t) ls p)"

definition createPeerConnection ::
  "platform \<Rightarrow> manager \<Rightarrow> string \<Rightarrow> string \<Rightarrow> bool \<Rightarrow> manager" where
  "createPeerConnection env s pid nm isInitiator =
     (let p0 = new_RTCPeerConnection (participantId s) (next_conn s);
          p1 = attach_local_tracks s p0;
          s1 = peers_set (s\<lparr>next_conn := Suc (next_conn s)\<rparr>) pid
                 \<lparr>peerId = pid, peer = p1, name = nm\<rparr>
      in if isInitiator then
           (case createOffer env p1 of
              Inl e \<Rightarrow> peers_delete s1 pid
            | Inr offer \<Rightarrow>
                (case setLocalDescription env p1 offer of
                   Inl e \<Rightarrow> peers_delete s1 pid
                 | Inr p2 \<Rightarrow>
                     send (with_peer s1 pid p2)
                       (OfferEvent \<lparr>o_from = participantId s, o_to = pid, o_offer = offer,
                                    o_name = participantName s\<rparr>)))
         else s1)"

text \<open>\<^verbatim>\<open>peer.onicecandidate\<close> (lines 452-465), for an event that carries a candidate.\<close>

definition onicecandidate :: "manager \<Rightarrow> string \<Rightarrow> string \<Rightarrow> manager" where
  "onicecandidate s pid cand =
     send s (IceCandidateEvent \<lparr>c_from = participantId s, c_to = pid, c_candidate = cand\<rparr>)"

subsection \<open>Joins (lines 387-393)\<close>

definition handleUserJoined :: "platform \<Rightarrow> manager \<Rightarrow> join_data \<Rightarrow> manager" where
  "handleUserJoined env s d =
     (if j_participantId d = participantId s then s
      else if peers_has s (j_participantId d) then s
      else createPeerConnection env s (j_participantId d) (j_name d) True)"

subsection \<open>Connection failure and reconnection (lines 468-486, 529-548)\<close>

text \<open>
  \<^verbatim>\<open>handleConnectionFailure\<close>: the record of the peer, if there is one, is closed and
  deleted and the peer-left callback is called; then, below the cap, the counter goes up and
  a reconnection is scheduled after 2000 ms times the new value of the counter.
\<close>

definition close_and_drop :: "manager \<Rightarrow> string \<Rightarrow> manager" where
  "close_and_drop s pid =
     (case peers_get s pid of
        None \<Rightarrow> s
      | Some pc \<Rightarrow>
          (let s1 = peers_delete (with_peer s pid (rtc_close (peer pc))) pid
           in if onPeerLeftCallback s1 then s1\<lparr>peerLeftCalls := peerLeftCalls s1 @ [pid]\<rparr>
              else s1))"

definition handleConnectionFailure :: "manager \<Rightarrow> string \<Rightarrow> string \<Rightarrow> manager" where
  "handleConnectionFailure s pid nm =
     (let s1 = close_and_drop s pid
      in if reconnectAttempts s1 < maxReconnectAttempts s1 then
           (let s2 = s1\<lparr>reconnectAttempts := reconnectAttempts s1 + 1\<rparr>
            in setTimeout s2 (Reconnect pid nm) (2000 * reconnectAttempts s2))
         else s1)"

text \<open>
  \<^verbatim>\<open>peer.onconnectionstatechange\<close> of the connection object with serial \<open>cid\<close>, made for
  peer \<open>pid\<close>; \<open>st\<close> is the \<^verbatim>\<open>connectionState\<close> the object reports.
\<close>

definition onconnectionstatechange ::
  "manager \<Rightarrow> nat \<Rightarrow> string \<Rightarrow> string \<Rightarrow> connection_state \<Rightarrow> manager" where
  "onconnectionstatechange s cid pid nm st =
     (if st = Connected then s\<lparr>reconnectAttempts := 0\<rparr>
      else if st = Failed then handleConnectionFailure s pid nm
      else if st = Disconnected then setTimeout s (DisconnectedGrace cid pid nm) 5000
      else s)"

text \<open>
  The callbacks of the two \<^verbatim>\<open>setTimeout\<close> calls above. \<open>still\<close> is what
  \<^verbatim>\<open>peer.connectionState === 'disconnected'\<close> gives when the grace period ends.
\<close>

definition fire_Reconnect :: "platform \<Rightarrow> manager \<Rightarrow> string \<Rightarrow> string \<Rightarrow> manager" where
  "fire_Reconnect env s pid nm = createPeerConnection env s pid nm True"

definition fire_DisconnectedGrace :: "manager \<Rightarrow> bool \<Rightarrow> string \<Rightarrow> string \<Rightarrow> manager" where
  "fire_DisconnectedGrace s still pid nm = (if still then handleConnectionFailure s pid nm else s)"

subsection \<open>Offers, answers and candidates (lines 550-638)\<close>

text \<open>
  The glare block of \<^verbatim>\<open>handleOffer\<close> (lines 556-568). \<open>None\<close> is the early \<^verbatim>\<open>return\<close>;
  otherwise the manager and the value of the variable \<^verbatim>\<open>peerConnection\<close> after the block.
  The ids are compared as the strings they are, character by character, a proper prefix
  being the smaller one.
\<close>

definition handleOffer_glare ::
  "manager \<Rightarrow> offer_data \<Rightarrow> (manager \<times> PeerConnection option) option" where
  "handleOffer_glare s d =
     (case peers_get s (o_from d) of
        None \<Rightarrow> Some (s, None)
      | Some pc \<Rightarrow>
          if signalingState (peer pc) = HaveLocalOffer then
            (if participantId s < o_from d then None
             else Some (peers_delete (with_peer s (o_from d) (rtc_close (peer pc))) (o_from d),
                        None))
          else Some (s, Some pc))"

text \<open>
  The \<^verbatim>\<open>try\<close> block (lines 576-601): the manager where the block ends, and the error if it
  ended by a rejection.
\<close>

definition handleOffer_try ::
  "platform \<Rightarrow> manager \<Rightarrow> offer_data \<Rightarrow> PeerConnection \<Rightarrow> manager \<times> error option" where
  "handleOffer_try env s d pc =
     (if signalingState (peer pc) = Stable \<or> signalingState (peer pc) = HaveRemoteOffer then
        (case setRemoteDescription env (peer pc) (o_offer d) of
           Inl e \<Rightarrow> (s, Some e)
         | Inr p1 \<Rightarrow>
             (let s1 = with_peer s (o_from d) p1
              in case createAnswer env p1 of
                   Inl e \<Rightarrow> (s1, Some e)
                 | Inr answer \<Rightarrow>
                     (case setLocalDescription env p1 answer of
                        Inl e \<Rightarrow> (s1, Some e)
                      | Inr p2 \<Rightarrow>
                          (send (with_peer s1 (o_from d) p2)
                             (AnswerEvent \<lparr>a_from = participantId s, a_to = o_from d,
                                           a_answer = answer, a_name = participantName s\<rparr>),
                           None))))
      else (s, None))"

definition handleOffer :: "platform \<Rightarrow> manager \<Rightarrow> offer_data \<Rightarrow> error + manager" where
  "handleOffer env s d =
     (if o_to d \<noteq> participantId s then Inr s
      else
        (case handleOffer_glare s d of
           None \<Rightarrow> Inr s
         | Some (s1, pc1) \<Rightarrow>
             (let s2 = (case pc1 of
                          None \<Rightarrow> createPeerConnection env s1 (o_from d) (o_name d) False
                        | Some _ \<Rightarrow> s1);
                  pc2 = (case pc1 of None \<Rightarrow> peers_get s2 (o_from d) | Some pc \<Rightarrow> Some pc)
              in case pc2 of
                   None \<Rightarrow> Inr s2
                 | Some pc \<Rightarrow>
                     (case handleOffer_try env s2 d pc of
                        (s3, None) \<Rightarrow> Inr s3
                      | (s3, Some e) \<Rightarrow> Inr (peers_delete s3 (o_from d))))))"

definition handleAnswer :: "platform \<Rightarrow> manager \<Rightarrow> answer_data \<Rightarrow> error + manager" where
  "handleAnswer env s d =
     (if a_to d \<noteq> participantId s then Inr s
      else
        (case peers_get s (a_from d) of
           None \<Rightarrow> Inr s
         | Some pc \<Rightarrow>
             if signalingState (peer pc) = HaveLocalOffer then
               (case setRemoteDescription env (peer pc) (a_answer d) of
                  Inl e \<Rightarrow> Inr s
                | Inr p1 \<Rightarrow> Inr (with_peer s (a_from d) p1))
             else Inr s))"

definition handleIceCandidate :: "platform \<Rightarrow> manager \<Rightarrow> ice_data \<Rightarrow> error + manager" where
  "handleIceCandidate env s d =
     (if c_to d \<noteq> participantId s then Inr s
      else
        (case peers_get s (c_from d) of
           None \<Rightarrow> Inr s
         | Some pc \<Rightarrow>
             (case addIceCandidate env (peer pc) (c_candidate d) of
                Inl e \<Rightarrow> Inr s
              | Inr p1 \<Rightarrow> Inr (with_peer s (c_from d) p1))))"

definition handleUserLeft :: "manager \<Rightarrow> string \<Rightarrow> manager" where
  "handleUserLeft s pid = close_and_drop s pid"

subsection \<open>Presence and roster discovery (lines 80-169)\<close>

record presence =
  pr_participantId :: string
  pr_name :: string

record participant_row =
  row_id :: string
  row_name :: string

text \<open>The \<^verbatim>\<open>join\<close> and \<^verbatim>\<open>leave\<close> handlers of the presence channel (lines 89-105).\<close>

definition onPresenceJoin :: "platform \<Rightarrow> manager \<Rightarrow> presence list \<Rightarrow> manager" where
  "onPresenceJoin env s newPresences =
     fold (\<lambda>pr s'. if pr_participantId pr \<noteq> participantId s'
                    then handleUserJoined env s'
                           \<lparr>j_participantId = pr_participantId pr, j_name = pr_name pr\<rparr>
                    else s')
       newPresences s"

definition onPresenceLeave :: "manager \<Rightarrow> presence list \<Rightarrow> manager" where
  "onPresenceLeave s leftPresences =
     fold (\<lambda>pr s'. handleUserLeft s' (pr_participantId pr)) leftPresences s"

text \<open>
  \<^verbatim>\<open>checkForNewParticipants\<close>: \<open>res\<close> is what the roster query gives, an error or the rows
  of the participants of the meeting that have not left.
\<close>

definition checkForNewParticipants ::
  "platform \<Rightarrow> manager \<Rightarrow> error + participant_row list \<Rightarrow> manager" where
  "checkForNewParticipants env s res =
     (case res of
        Inl e \<Rightarrow> s
      | Inr data \<Rightarrow>
          fold (\<lambda>participant s'.
                  if row_name participant \<noteq> participantName s' \<and>
                     \<not> peers_has s' (row_id participant)
                  then handleUserJoined env s'
                         \<lparr>j_participantId = row_id participant, j_name = row_name participant\<rparr>
                  else s')
            data s)"

text \<open>\<^verbatim>\<open>handlePresenceSync\<close>: the presence state maps each key to a list of presences.\<close>

definition handlePresenceSync ::
  "platform \<Rightarrow> manager \<Rightarrow> (string \<times> presence list) list \<Rightarrow> manager" where
  "handlePresenceSync env s state =
     fold (\<lambda>(key, presences) s1.
             fold (\<lambda>pr s'.
                     if pr_participantId pr \<noteq> participantId s' \<and>
                        \<not> peers_has s' (pr_participantId pr)
                     then handleUserJoined env s'
                            \<lparr>j_participantId = pr_participantId pr, j_name = pr_name pr\<rparr>
                     else s')
               presences s1)
       state s"

subsection \<open>Construction, joining and leaving\<close>

definition setInterval_heartbeat :: "manager \<Rightarrow> manager" where
  "setInterval_heartbeat s =
     s\<lparr>heartbeatInterval := Some (next_timer s),
       activeIntervals := activeIntervals s @ [next_timer s],
       next_timer := Suc (next_timer s)\<rparr>"

definition setInterval_participantCheck :: "manager \<Rightarrow> manager" where
  "setInterval_participantCheck s =
     s\<lparr>participantCheckInterval := Some (next_timer s),
       activeIntervals := activeIntervals s @ [next_timer s],
       next_timer := Suc (next_timer s)\<rparr>"

definition clearInterval :: "manager \<Rightarrow> nat \<Rightarrow> manager" where
  "clearInterval s h = s\<lparr>activeIntervals := removeAll h (activeIntervals s)\<rparr>"

definition setupSignaling :: "manager \<Rightarrow> manager" where
  "setupSignaling s = s\<lparr>signalingSubscribed := True\<rparr>"

definition startHeartbeat :: "manager \<Rightarrow> manager" where
  "startHeartbeat s = setInterval_participantCheck (setInterval_heartbeat s)"

definition setupPresenceTracking :: "manager \<Rightarrow> manager" where
  "setupPresenceTracking s = startHeartbeat (s\<lparr>presenceSubscribed := True\<rparr>)"

text \<open>The constructor (lines 11-34): the field initialisers, then the two set-up calls.\<close>

definition new_WebRTCManager :: "string \<Rightarrow> string \<Rightarrow> string \<Rightarrow> manager" where
  "new_WebRTCManager mid pid pname =
     setupPresenceTracking (setupSignaling
       \<lparr>localStream = None, peers = [], meetingId = mid, participantId = pid,
        participantName = pname, onPeerLeftCallback = False, isInitialized = False,
        reconnectAttempts = 0, maxReconnectAttempts = 5, heartbeatInterval = None,
        participantCheckInterval = None, backgroundBlurEnabled = False, detached = [],
        next_conn = 0, sent = [], signalingSubscribed = False, presenceSubscribed = False,
        presenceTracked = False, timeouts = [], activeIntervals = [], next_timer = 1,
        peerLeftCalls = []\<rparr>)"

definition onPeerLeft :: "manager \<Rightarrow> manager" where
  "onPeerLeft s = s\<lparr>onPeerLeftCallback := True\<rparr>"

text \<open>
  The \<^verbatim>\<open>system\<close> handler of the signalling channel (lines 69-77), for a status
  \<^verbatim>\<open>CHANNEL_ERROR\<close>; it counts on the same counter as the reconnection of a peer.
\<close>

definition onChannelError :: "manager \<Rightarrow> manager" where
  "onChannelError s =
     (if reconnectAttempts s < maxReconnectAttempts s then
        (let s1 = s\<lparr>reconnectAttempts := reconnectAttempts s + 1\<rparr>
         in setTimeout s1 Resubscribe (1000 * reconnectAttempts s1))
      else s)"

text \<open>
  The calls \<^verbatim>\<open>track\<close>, \<^verbatim>\<open>untrack\<close>, \<^verbatim>\<open>send\<close> and \<^verbatim>\<open>unsubscribe\<close> of a channel of the
  realtime client resolve with a status string, which the class never reads; they do not
  reject, whether the channel is subscribed or not.
\<close>

definition presence_track :: "manager \<Rightarrow> manager" where
  "presence_track s = s\<lparr>presenceTracked := True\<rparr>"

definition presence_untrack :: "manager \<Rightarrow> manager" where
  "presence_untrack s = s\<lparr>presenceTracked := False\<rparr>"

definition announce :: "manager \<Rightarrow> manager" where
  "announce s =
     send (presence_track s)
       (UserJoinedEvent \<lparr>j_participantId = participantId s, j_name = participantName s\<rparr>)"

definition joinMeeting :: "manager \<Rightarrow> error + manager" where
  "joinMeeting s =
     (if isInitialized s then Inr s
      else Inr (setTimeout (announce (s\<lparr>isInitialized := True\<rparr>)) CheckParticipants 1000))"

definition stop_track :: "track \<Rightarrow> track" where
  "stop_track t = t\<lparr>stopped := True\<rparr>"

definition close_all :: "manager \<Rightarrow> manager" where
  "close_all s = s\<lparr>peers := map (\<lambda>(k, pc). (k, pc\<lparr>peer := rtc_close (peer pc)\<rparr>)) (peers s)\<rparr>"

definition leaveMeeting :: "manager \<Rightarrow> error + manager" where
  "leaveMeeting s =
     (let s1 = (case heartbeatInterval s of None \<Rightarrow> s | Some h \<Rightarrow> clearInterval s h);
          s2 = (case participantCheckInterval s1 of None \<Rightarrow> s1 | Some h \<Rightarrow> clearInterval s1 h);
          s3 = presence_untrack s2;
          s4 = send s3 (UserLeftEvent (participantId s3));
          s5 = peers_clear (close_all s4);
          s6 = s5\<lparr>localStream := map_option (map stop_track) (localStream s5)\<rparr>
      in Inr (s6\<lparr>signalingSubscribed := False, presenceSubscribed := False\<rparr>))"

definition refreshConnection :: "manager \<Rightarrow> error + manager" where
  "refreshConnection s =
     (let s1 = peers_clear (close_all (s\<lparr>reconnectAttempts := 0\<rparr>));
          s2 = setupSignaling (s1\<lparr>signalingSubscribed := False\<rparr>)
      in Inr (setTimeout s2 Reannounce 1000))"

definition fire_Reannounce :: "manager \<Rightarrow> manager" where
  "fire_Reannounce s = announce s"

definition fire_Resubscribe :: "manager \<Rightarrow> manager" where
  "fire_Resubscribe s = setupSignaling s"

subsection \<open>Statistics (lines 789-802)\<close>

record stats_report =
  stats_conn :: nat
  stats_state :: connection_state

definition getStats :: "platform \<Rightarrow> rtc_peer \<Rightarrow> error + stats_report" where
  "getStats env p =
     (if env (GetStats (conn_id p)) then Inl OperationError
      else Inr \<lparr>stats_conn = conn_id p, stats_state = connectionState p\<rparr>)"

definition getConnectionStats ::
  "platform \<Rightarrow> manager \<Rightarrow> error + (string \<times> stats_report) list" where
  "getConnectionStats env s =
     Inr (fold (\<lambda>(pid, pc) stats.
                  case getStats env (peer pc) of
                    Inl e \<Rightarrow> stats
                  | Inr report \<Rightarrow> AList.update pid report stats)
            (peers s) [])"

subsection \<open>Media (lines 171-357, 663-712)\<close>

text \<open>\<^verbatim>\<open>this.peers.forEach(({ peer }) => ...)\<close> with a body that works on the connection.\<close>

definition peers_forEach :: "manager \<Rightarrow> (rtc_peer \<Rightarrow> rtc_peer) \<Rightarrow> manager" where
  "peers_forEach s f = s\<lparr>peers := map (\<lambda>(k, pc). (k, pc\<lparr>peer := f (peer pc)\<rparr>)) (peers s)\<rparr>"

text \<open>\<^verbatim>\<open>stream.removeTrack(t)\<close> and \<^verbatim>\<open>stream.addTrack(t)\<close>.\<close>

definition stream_removeTrack :: "media_stream \<Rightarrow> track \<Rightarrow> media_stream" where
  "stream_removeTrack ms t = remove1 t ms"

definition stream_addTrack :: "media_stream \<Rightarrow> track \<Rightarrow> media_stream" where
  "stream_addTrack ms t = (if t \<in> set ms then ms else ms @ [t])"

text \<open>
  \<^verbatim>\<open>applyBackgroundBlur\<close>: \<open>supported\<close> is \<^verbatim>\<open>'MediaStreamTrackProcessor' in window\<close> and
  \<open>processedTrack\<close> is the video track of the canvas capture.
\<close>

definition applyBackgroundBlur :: "manager \<Rightarrow> bool \<Rightarrow> track \<Rightarrow> manager" where
  "applyBackgroundBlur s supported processedTrack =
     (if \<not> supported then s
      else
        (case localStream s of
           None \<Rightarrow> s
         | Some ls \<Rightarrow>
             (case first_track (getVideoTracks ls) of
                None \<Rightarrow> s
              | Some videoTrack \<Rightarrow>
                  (let s1 = peers_forEach s (\<lambda>p. replaceVideoTrack p (Some processedTrack))
                   in s1\<lparr>localStream :=
                           Some (stream_addTrack (stream_removeTrack ls videoTrack)
                                   processedTrack)\<rparr>))))"

text \<open>
  \<^verbatim>\<open>removeBackgroundBlur\<close>: \<open>res\<close> is what \<^verbatim>\<open>getUserMedia\<close> gives. A stream without a video
  track makes \<^verbatim>\<open>addTrack(undefined)\<close> throw after the tracks were replaced; the \<^verbatim>\<open>catch\<close>
  block logs it.
\<close>

definition removeBackgroundBlur :: "manager \<Rightarrow> error + media_stream \<Rightarrow> manager" where
  "removeBackgroundBlur s res =
     (case res of
        Inl e \<Rightarrow> s
      | Inr newStream \<Rightarrow>
          (let videoTrack = first_track (getVideoTracks newStream);
               s1 = peers_forEach s (\<lambda>p. replaceVideoTrack p videoTrack)
           in case localStream s1 of
                None \<Rightarrow> s1
              | Some ls \<Rightarrow>
                  (let ls1 = map (\<lambda>t. if kind t = Video then stop_track t else t) ls
                   in case first_track (getVideoTracks ls1) of
                        None \<Rightarrow> s1\<lparr>localStream := Some ls1\<rparr>
                      | Some old \<Rightarrow>
                          (case videoTrack of
                             None \<Rightarrow> s1\<lparr>localStream := Some (stream_removeTrack ls1 old)\<rparr>
                           | Some vt \<Rightarrow>
                               s1\<lparr>localStream :=
                                    Some (stream_addTrack (stream_removeTrack ls1 old) vt)\<rparr>))))"

text \<open>
  \<^verbatim>\<open>toggleBackgroundBlur\<close>: the platform's part of the call is the triple \<open>supported\<close>,
  \<open>processedTrack\<close> (read when the blur is applied) and \<open>res\<close> (read when it is removed).
\<close>

definition toggleBackgroundBlur ::
  "manager \<Rightarrow> bool \<Rightarrow> bool \<Rightarrow> track \<Rightarrow> error + media_stream \<Rightarrow> error + manager" where
  "toggleBackgroundBlur s en supported processedTrack res =
     (let s1 = s\<lparr>backgroundBlurEnabled := en\<rparr>
      in case localStream s1 of
           None \<Rightarrow> Inr s1
         | Some ls \<Rightarrow>
             if length (getVideoTracks ls) > 0 then
               (if en then Inr (applyBackgroundBlur s1 supported processedTrack)
                else Inr (removeBackgroundBlur s1 res))
             else Inr s1)"

text \<open>
  \<^verbatim>\<open>initializeMedia\<close>: \<open>res\<close> is what \<^verbatim>\<open>getUserMedia\<close> gives; a rejection is thrown again.
\<close>

definition initializeMedia ::
  "manager \<Rightarrow> bool \<Rightarrow> bool \<Rightarrow> error + media_stream \<Rightarrow> bool \<Rightarrow> track \<Rightarrow> error + manager" where
  "initializeMedia s video audio res supported processedTrack =
     (case res of
        Inl e \<Rightarrow> Inl e
      | Inr stream \<Rightarrow>
          (let s1 = s\<lparr>localStream := Some stream\<rparr>
           in if backgroundBlurEnabled s1 \<and> video
              then Inr (applyBackgroundBlur s1 supported processedTrack)
              else Inr s1))"

text \<open>
  \<^verbatim>\<open>startScreenShare\<close>: \<open>res\<close> is what \<^verbatim>\<open>getDisplayMedia\<close> gives. Without a video track in
  the captured stream the assignment to \<^verbatim>\<open>videoTrack.onended\<close> throws, and the \<^verbatim>\<open>catch\<close>
  block throws it again.
\<close>

definition startScreenShare :: "manager \<Rightarrow> error + media_stream \<Rightarrow> error + manager" where
  "startScreenShare s res =
     (case res of
        Inl e \<Rightarrow> Inl e
      | Inr screenStream \<Rightarrow>
          (case first_track (getVideoTracks screenStream) of
             None \<Rightarrow> Inl TypeError
           | Some videoTrack \<Rightarrow>
               Inr (peers_forEach s (\<lambda>p. replaceVideoTrack p (Some videoTrack)))))"

text \<open>
  The \<^verbatim>\<open>onended\<close> handler that \<^verbatim>\<open>startScreenShare\<close> puts on the captured track
  (lines 338-350). It runs when the captured track ends, as long as it is still the
  handler of the track: \<^verbatim>\<open>onended\<close> is a property, and a caller that assigns its own
  handler to the track of the returned stream (the meeting room component does) takes
  this one away.
\<close>

definition screenShare_onended :: "manager \<Rightarrow> manager" where
  "screenShare_onended s =
     (case localStream s of
        None \<Rightarrow> s
      | Some ls \<Rightarrow>
          (case first_track (getVideoTracks ls) of
             None \<Rightarrow> s
           | Some videoTrack \<Rightarrow> peers_forEach s (\<lambda>p. replaceVideoTrack p (Some videoTrack))))"

definition toggleAudio :: "manager \<Rightarrow> bool \<Rightarrow> manager" where
  "toggleAudio s en =
     (case localStream s of
        None \<Rightarrow> s
      | Some ls \<Rightarrow>
          (let ls1 = map (\<lambda>t. if kind t = Audio then t\<lparr>enabled := en\<rparr> else t) ls
           in send (s\<lparr>localStream := Some ls1\<rparr>)
                (MediaStateChangedEvent (participantId s) en
                   (list_ex enabled (getVideoTracks ls1)))))"

definition toggleVideo :: "manager \<Rightarrow> bool \<Rightarrow> manager" where
  "toggleVideo s en =
     (case localStream s of
        None \<Rightarrow> s
      | Some ls \<Rightarrow>
          (let ls1 = map (\<lambda>t. if kind t = Video then t\<lparr>enabled := en\<rparr> else t) ls
           in send (s\<lparr>localStream := Some ls1\<rparr>)
                (MediaStateChangedEvent (participantId s)
                   (list_ex enabled (getAudioTracks ls1)) en)))"

definition raiseHand :: "manager \<Rightarrow> bool \<Rightarrow> error + manager" where
  "raiseHand s raised =
     Inr (send s (HandRaisedEvent (participantId s) (participantName s) raised))"

subsection \<open>Event dispatch (lines 36-110)\<close>

text \<open>
  Everything that can happen to a manager: a broadcast or presence event of one of the two
  channels, an event of a connection object, a timer that fires, a call of a public
  method. An event carries what the platform contributes to it.
\<close>

datatype event =
  UserJoined join_data
| UserLeft string
| OfferReceived offer_data
| AnswerReceived answer_data
| IceCandidateReceived ice_data
| HandRaisedReceived string string bool
| MediaStateChangedReceived string bool bool
| PresenceJoin "presence list"
| PresenceLeave "presence list"
| PresenceSync "(string \<times> presence list) list"
| RosterPoll "error + participant_row list"
| ConnectionStateChange nat string string connection_state
| IceCandidateFound string string
| ChannelError
| ReconnectFired string string
| GraceFired bool string string
| ReannounceFired
| ResubscribeFired
| JoinMeeting
| LeaveMeeting
| RefreshConnection
| InitializeMedia bool bool "error + media_stream" bool track
| ToggleAudio bool
| ToggleVideo bool
| StartScreenShare "error + media_stream"
| ScreenShareEnded
| ToggleBackgroundBlur bool bool track "error + media_stream"
| RaiseHand bool
| OnPeerLeft

text \<open>
  The manager after an \<^verbatim>\<open>async\<close> method: the one it resolved with, or, when it rejected, the
  one it was called on (a method of the class that rejects has written nothing yet).
\<close>

definition settle :: "manager \<Rightarrow> error + manager \<Rightarrow> manager" where
  "settle s r = (case r of Inl e \<Rightarrow> s | Inr s' \<Rightarrow> s')"

fun step :: "platform \<Rightarrow> manager \<Rightarrow> event \<Rightarrow> manager" where
  "step env s (UserJoined d) = handleUserJoined env s d"
| "step env s (UserLeft pid) = handleUserLeft s pid"
| "step env s (OfferReceived d) = settle s (handleOffer env s d)"
| "step env s (AnswerReceived d) = settle s (handleAnswer env s d)"
| "step env s (IceCandidateReceived d) = settle s (handleIceCandidate env s d)"
| "step env s (HandRaisedReceived pid nm raised) = s"
| "step env s (MediaStateChangedReceived pid audio video) = s"
| "step env s (PresenceJoin ps) = onPresenceJoin env s ps"
| "step env s (PresenceLeave ps) = onPresenceLeave s ps"
| "step env s (PresenceSync st) = handlePresenceSync env s st"
| "step env s (RosterPoll res) = checkForNewParticipants env s res"
| "step env s (ConnectionStateChange cid pid nm st) = onconnectionstatechange s cid pid nm st"
| "step env s (IceCandidateFound pid cand) = onicecandidate s pid cand"
| "step env s ChannelError = onChannelError s"
| "step env s (ReconnectFired pid nm) = fire_Reconnect env s pid nm"
| "step env s (GraceFired still pid nm) = fire_DisconnectedGrace s still pid nm"
| "step env s ReannounceFired = fire_Reannounce s"
| "step env s ResubscribeFired = fire_Resubscribe s"
| "step env s JoinMeeting = settle s (joinMeeting s)"
| "step env s LeaveMeeting = settle s (leaveMeeting s)"
| "step env s RefreshConnection = settle s (refreshConnection s)"
| "step env s (InitializeMedia video audio res supported processedTrack) =
     settle s (initializeMedia s video audio res supported processedTrack)"
| "step env s (ToggleAudio en) = toggleAudio s en"
| "step env s (ToggleVideo en) = toggleVideo s en"
| "step env s (StartScreenShare res) = settle s (startScreenShare s res)"
| "step env s ScreenShareEnded = screenShare_onended s"
| "step env s (ToggleBackgroundBlur en supported processedTrack res) =
     settle s (toggleBackgroundBlur s en supported processedTrack res)"
| "step env s (RaiseHand raised) = settle s (raiseHand s raised)"
| "step env s OnPeerLeft = onPeerLeft s"

definition run :: "manager \<Rightarrow> (platform \<times> event) list \<Rightarrow> manager" where
  "run s evs = fold (\<lambda>(env, ev) s'. step env s' ev) evs s"

text \<open>The events that set the retry counter back to zero.\<close>

fun is_reset :: "event \<Rightarrow> bool" where
  "is_reset (ConnectionStateChange cid pid nm st) = (st = Connected)"
| "is_reset RefreshConnection = True"
| "is_reset _ = False"

text \<open>The events that can put a record for \<open>pid\<close> into the map.\<close>

fun may_create :: "string \<Rightarrow> event \<Rightarrow> bool" where
  "may_create pid (UserJoined d) = (j_participantId d = pid)"
| "may_create pid (PresenceJoin ps) = (pid \<in> set (map pr_participantId ps))"
| "may_create pid (PresenceSync st) = (pid \<in> set (map pr_participantId (concat (map snd st))))"
| "may_create pid (RosterPoll res) =
     (case res of Inl e \<Rightarrow> False | Inr rows \<Rightarrow> pid \<in> set (map row_id rows))"
| "may_create pid (OfferReceived d) = (o_from d = pid)"
| "may_create pid (ReconnectFired p nm) = (p = pid)"
| "may_create pid _ = False"

text \<open>The reconnections scheduled so far.\<close>

fun is_Reconnect :: "timer_action \<Rightarrow> bool" where
  "is_Reconnect (Reconnect pid nm) = True"
| "is_Reconnect _ = False"

definition reconnections :: "manager \<Rightarrow> (nat \<times> timer_action) list" where
  "reconnections s = filter (\<lambda>(delay, act). is_Reconnect act) (timeouts s)"

definition reconnections_to :: "manager \<Rightarrow> string \<Rightarrow> (nat \<times> timer_action) list" where
  "reconnections_to s pid =
     filter (\<lambda>(delay, act). case act of Reconnect p nm \<Rightarrow> p = pid | _ \<Rightarrow> False) (timeouts s)"

text \<open>
  Two connection objects form one connection when each is in the stable state and has
  the description the other one made as its remote description.
\<close>

definition matched :: "rtc_peer \<Rightarrow> rtc_peer \<Rightarrow> bool" where
  "matched p q =
     (signalingState p = Stable \<and> signalingState q = Stable \<and>
      localDescription p \<noteq> None \<and> localDescription q \<noteq> None \<and>
      remoteDescription p = localDescription q \<and> remoteDescription q = localDescription p)"

text \<open>
  The part of the manager that only the methods about joining, retrying and timers write:
  the identity, the flag of \<^verbatim>\<open>joinMeeting\<close>, the retry counter with its cap and the timers
  scheduled so far.
\<close>

definition control_part ::
  "manager \<Rightarrow> string \<times> string \<times> bool \<times> nat \<times> nat \<times> (nat \<times> timer_action) list" where
  "control_part s =
     (participantId s, participantName s, isInitialized s, reconnectAttempts s,
      maxReconnectAttempts s, timeouts s)"

text \<open>
  Two managers and the signalling channel between them: a delivery hands one event to one
  of the two, the other one is not touched.
\<close>

datatype side = SideA | SideB

fun deliver ::
  "platform \<Rightarrow> platform \<Rightarrow> manager \<times> manager \<Rightarrow> side \<times> event \<Rightarrow> manager \<times> manager" where
  "deliver envA envB (sa, sb) (SideA, ev) = (step envA sa ev, sb)"
| "deliver envA envB (sa, sb) (SideB, ev) = (sa, step envB sb ev)"

definition deliveries ::
  "platform \<Rightarrow> platform \<Rightarrow> manager \<times> manager \<Rightarrow> (side \<times> event) list \<Rightarrow> manager \<times> manager" where
  "deliveries envA envB ss ds = fold (\<lambda>d ss'. deliver envA envB ss' d) ds ss"

text \<open>
  The two sides have a connection when each has a record for the other and the two
  connection objects are matched.
\<close>

definition connected_pair :: "manager \<times> manager \<Rightarrow> bool" where
  "connected_pair ss =
     (case ss of (sa, sb) \<Rightarrow>
        (case (peers_get sa (participantId sb), peers_get sb (participantId sa)) of
           (Some pa, Some pb) \<Rightarrow> matched (peer pa) (peer pb)
         | _ \<Rightarrow> False))"

text \<open>The events whose handlers write the control part.\<close>

fun writes_control :: "event \<Rightarrow> bool" where
  "writes_control (ConnectionStateChange cid pid nm st) = True"
| "writes_control (GraceFired still pid nm) = True"
| "writes_control ChannelError = True"
| "writes_control JoinMeeting = True"
| "writes_control RefreshConnection = True"
| "writes_control _ = False"

text \<open>
  The keys of the map, and what a handler may do to them: \<open>registry_grows K s s'\<close> holds
  when every key of \<open>s'\<close> is a key of \<open>s\<close> or in \<open>K\<close>, and no key is listed twice in \<open>s'\<close>
  if none is in \<open>s\<close> (a \<^verbatim>\<open>Map\<close> holds a key once).
\<close>

definition known_peers :: "manager \<Rightarrow> string set" where
  "known_peers s = fst ` set (peers s)"

definition registry_grows :: "string set \<Rightarrow> manager \<Rightarrow> manager \<Rightarrow> bool" where
  "registry_grows K s s' =
     (known_peers s' \<subseteq> K \<union> known_peers s \<and>
      (distinct (map fst (peers s)) \<longrightarrow> distinct (map fst (peers s'))))"

text \<open>
  What holds of the retry counter in every manager a run reaches: it is at most the cap,
  the cap is five, and every reconnection was scheduled after 2000 ms times a value the
  counter can take.
\<close>

definition retry_ok :: "manager \<Rightarrow> bool" where
  "retry_ok s =
     (reconnectAttempts s \<le> maxReconnectAttempts s \<and> maxReconnectAttempts s = 5 \<and>
      list_all (\<lambda>(delay, act). is_Reconnect act \<longrightarrow> delay \<in> (\<lambda>k. 2000 * k) ` {1..5})
        (timeouts s))"

text \<open>
  A record without what the media pipeline writes (the tracks of the senders and the list
  of the \<^verbatim>\<open>replaceTrack\<close> calls), and the registry of such records: the keys, the names, the
  identity of each connection object and its negotiation state.
\<close>

definition signalling_part :: "PeerConnection \<Rightarrow> PeerConnection" where
  "signalling_part pc = pc\<lparr>peer := (peer pc)\<lparr>senders := [], replaceTrackCalls := []\<rparr>\<rparr>"

definition registry_signalling :: "manager \<Rightarrow> (string \<times> PeerConnection) list" where
  "registry_signalling s = map (\<lambda>(k, pc). (k, signalling_part pc)) (peers s)"

definition negotiation_states :: "manager \<Rightarrow> (string \<times> signaling_state) list" where
  "negotiation_states s = map (\<lambda>(k, pc). (k, signalingState (peer pc))) (peers s)"

text \<open>What an operation of the media pipeline must leave alone.\<close>

definition signalling_untouched :: "manager \<Rightarrow> manager \<Rightarrow> bool" where
  "signalling_untouched s s' =
     (sent s' = sent s \<and> registry_signalling s' = registry_signalling s \<and>
      negotiation_states s' = negotiation_states s \<and> map fst (peers s') = map fst (peers s))"

text \<open>The \<^verbatim>\<open>replaceTrack\<close> calls on the connection of each peer.\<close>

definition substitutions :: "manager \<Rightarrow> (string \<times> track option list) list" where
  "substitutions s = map (\<lambda>(k, pc). (k, replaceTrackCalls (peer pc))) (peers s)"

subsection \<open>Two participants\<close>

text \<open>
  Alice and Bob construct their managers, and each learns of the other before any offer
  arrives: both have an offer in flight.
\<close>

definition alice0 :: manager where
  "alice0 = new_WebRTCManager ''m'' ''alice'' ''Alice''"

definition bob0 :: manager where
  "bob0 = new_WebRTCManager ''m'' ''bob'' ''Bob''"

definition alice1 :: manager where
  "alice1 = handleUserJoined no_faults alice0 \<lparr>j_participantId = ''bob'', j_name = ''Bob''\<rparr>"

definition bob1 :: manager where
  "bob1 = handleUserJoined no_faults bob0 \<lparr>j_participantId = ''alice'', j_name = ''Alice''\<rparr>"

definition alice_offer :: offer_data where
  "alice_offer =
     \<lparr>o_from = ''alice'', o_to = ''bob'',
      o_offer = \<lparr>sdp_type = Offer, sdp_owner = ''alice'', sdp_conn = 0\<rparr>, o_name = ''Alice''\<rparr>"

definition bob_offer :: offer_data where
  "bob_offer =
     \<lparr>o_from = ''bob'', o_to = ''alice'',
      o_offer = \<lparr>sdp_type = Offer, sdp_owner = ''bob'', sdp_conn = 0\<rparr>, o_name = ''Bob''\<rparr>"

text \<open>The answer Bob sends when he gives way to the offer of Alice.\<close>

definition bob_answer :: answer_data where
  "bob_answer =
     \<lparr>a_from = ''bob'', a_to = ''alice'',
      a_answer = \<lparr>sdp_type = Answer, sdp_owner = ''bob'', sdp_conn = 1\<rparr>, a_name = ''Bob''\<rparr>"

text \<open>A provisional answer of Bob, and Alice after she has handled it.\<close>

definition bob_pranswer :: answer_data where
  "bob_pranswer =
     \<lparr>a_from = ''bob'', a_to = ''alice'',
      a_answer = \<lparr>sdp_type = Pranswer, sdp_owner = ''bob'', sdp_conn = 0\<rparr>, a_name = ''Bob''\<rparr>"

definition alice_pranswered :: manager where
  "alice_pranswered = settle alice1 (handleAnswer no_faults alice1 bob_pranswer)"

definition alice2 :: manager where
  "alice2 = handleUserJoined no_faults alice1 \<lparr>j_participantId = ''carol'', j_name = ''Carol''\<rparr>"

text \<open>A platform on which the statistics of the first connection object cannot be read.\<close>

definition stats_fail_0 :: platform where
  "stats_fail_0 = (\<lambda>c. c = GetStats 0)"

text \<open>
  Alice keeps failing to reach Bob while Carol connects: Bob joins once, each of his
  connections fails and each scheduled reconnection fires; before the fifth fires, Carol
  joins and her connection is established.
\<close>

definition retry_trace :: "(platform \<times> event) list" where
  "retry_trace =
     map (Pair no_faults)
       [UserJoined \<lparr>j_participantId = ''bob'', j_name = ''Bob''\<rparr>,
        ConnectionStateChange 0 ''bob'' ''Bob'' Failed, ReconnectFired ''bob'' ''Bob'',
        ConnectionStateChange 1 ''bob'' ''Bob'' Failed, ReconnectFired ''bob'' ''Bob'',
        ConnectionStateChange 2 ''bob'' ''Bob'' Failed, ReconnectFired ''bob'' ''Bob'',
        ConnectionStateChange 3 ''bob'' ''Bob'' Failed, ReconnectFired ''bob'' ''Bob'',
        ConnectionStateChange 4 ''bob'' ''Bob'' Failed,
        UserJoined \<lparr>j_participantId = ''carol'', j_name = ''Carol''\<rparr>,
        ConnectionStateChange 5 ''carol'' ''Carol'' Connected,
        ReconnectFired ''bob'' ''Bob'',
        ConnectionStateChange 6 ''bob'' ''Bob'' Failed]"

text \<open>
  Alice learnt of Bob before her camera was on, so the connection to Bob has no sender;
  then she gets her camera, shares her screen and stops sharing.
\<close>

definition camera :: media_stream where
  "camera = [\<lparr>kind = Video, label = ''camera'', enabled = True, stopped = False\<rparr>,
             \<lparr>kind = Audio, label = ''microphone'', enabled = True, stopped = False\<rparr>]"

definition screen :: media_stream where
  "screen = [\<lparr>kind = Video, label = ''screen'', enabled = True, stopped = False\<rparr>]"

definition alice_with_camera :: manager where
  "alice_with_camera =
     settle alice1
       (initializeMedia alice1 True True (Inr camera) False
          \<lparr>kind = Video, label = ''canvas'', enabled = True, stopped = False\<rparr>)"

definition alice_shared_and_stopped :: manager where
  "alice_shared_and_stopped =
     screenShare_onended (settle alice_with_camera (startScreenShare alice_with_camera (Inr screen)))"

text \<open>Alice with her camera on before Carol joins: the connection to Carol has senders.\<close>

definition alice_then_carol :: manager where
  "alice_then_carol =
     handleUserJoined no_faults alice_with_camera
       \<lparr>j_participantId = ''carol'', j_name = ''Carol''\<rparr>"

section \<open>Properties\<close>

subsection \<open>What the building blocks leave alone\<close>

lemmas registry_defs =
  peers_get_def peers_has_def peers_set_def peers_delete_def peers_clear_def with_peer_def
  unreferenced_def send_def setTimeout_def

lemma createPeerConnection_frame:
  "participantId (createPeerConnection env s pid nm ini) = participantId s"
  "participantName (createPeerConnection env s pid nm ini) = participantName s"
  "isInitialized (createPeerConnection env s pid nm ini) = isInitialized s"
  "reconnectAttempts (createPeerConnection env s pid nm ini) = reconnectAttempts s"
  "maxReconnectAttempts (createPeerConnection env s pid nm ini) = maxReconnectAttempts s"
  "timeouts (createPeerConnection env s pid nm ini) = timeouts s"
  "next_conn (createPeerConnection env s pid nm ini) = Suc (next_conn s)"
  by (simp_all add: createPeerConnection_def registry_defs Let_def split: sum.splits)

lemma handleUserJoined_frame:
  "participantId (handleUserJoined env s d) = participantId s"
  "participantName (handleUserJoined env s d) = participantName s"
  "isInitialized (handleUserJoined env s d) = isInitialized s"
  "reconnectAttempts (handleUserJoined env s d) = reconnectAttempts s"
  "maxReconnectAttempts (handleUserJoined env s d) = maxReconnectAttempts s"
  "timeouts (handleUserJoined env s d) = timeouts s"
  by (simp_all add: handleUserJoined_def createPeerConnection_frame)

lemma new_WebRTCManager_fields:
  "participantId (new_WebRTCManager m p n) = p"
  "participantName (new_WebRTCManager m p n) = n"
  "peers (new_WebRTCManager m p n) = []"
  "isInitialized (new_WebRTCManager m p n) = False"
  "reconnectAttempts (new_WebRTCManager m p n) = 0"
  "maxReconnectAttempts (new_WebRTCManager m p n) = 5"
  "localStream (new_WebRTCManager m p n) = None"
  "next_conn (new_WebRTCManager m p n) = 0"
  "sent (new_WebRTCManager m p n) = []"
  "detached (new_WebRTCManager m p n) = []"
  "timeouts (new_WebRTCManager m p n) = []"
  by (simp_all add: new_WebRTCManager_def setupPresenceTracking_def setupSignaling_def
        startHeartbeat_def setInterval_heartbeat_def setInterval_participantCheck_def)

lemmas construction_defs =
  new_WebRTCManager_def setupPresenceTracking_def setupSignaling_def startHeartbeat_def
  setInterval_heartbeat_def setInterval_participantCheck_def

lemmas platform_defs =
  new_RTCPeerConnection_def rtc_close_def addTrack_def createOffer_def createAnswer_def
  setLocalDescription_def setRemoteDescription_def addIceCandidate_def no_faults_def

lemmas signalling_defs =
  attach_local_tracks_def createPeerConnection_def handleUserJoined_def close_and_drop_def handleConnectionFailure_def
  handleOffer_def handleOffer_glare_def handleOffer_try_def handleAnswer_def
  handleIceCandidate_def handleUserLeft_def

lemmas scenario_defs =
  alice0_def bob0_def alice1_def bob1_def alice_offer_def bob_offer_def bob_answer_def
  bob_pranswer_def alice_pranswered_def

lemma fold_invariant:
  "(\<And>x s. x \<in> set xs \<Longrightarrow> P s \<Longrightarrow> P (f x s)) \<Longrightarrow> P s \<Longrightarrow> P (fold f xs s)"
  by (induction xs arbitrary: s) auto

lemma fold_unchanged:
  "(\<And>x. x \<in> set xs \<Longrightarrow> f x s = s) \<Longrightarrow> fold f xs s = s"
  by (induction xs) auto

lemma alice1_has_bob: "peers_has alice1 ''bob''"
  by (simp add: scenario_defs construction_defs signalling_defs platform_defs registry_defs Let_def)

text \<open>
  Most handlers leave the control part of the manager as it is; the ones that do not are
  listed by \<open>writes_control\<close>.
\<close>

lemma control_createPeerConnection:
  "control_part (createPeerConnection env s pid nm ini) = control_part s"
  by (simp add: control_part_def createPeerConnection_frame)

lemma control_handleUserJoined: "control_part (handleUserJoined env s d) = control_part s"
  by (simp add: handleUserJoined_def control_createPeerConnection)

lemma control_close_and_drop: "control_part (close_and_drop s pid) = control_part s"
  by (simp add: close_and_drop_def control_part_def registry_defs Let_def split: option.splits)

lemma control_handleOffer_glare:
  "handleOffer_glare s d = Some (s1, pc1) \<Longrightarrow> control_part s1 = control_part s"
  by (auto simp: handleOffer_glare_def control_part_def registry_defs
        split: option.splits if_splits)

lemma control_handleOffer_try:
  "handleOffer_try env s d pc = (s3, r) \<Longrightarrow> control_part s3 = control_part s"
  by (auto simp: handleOffer_try_def control_part_def registry_defs Let_def
        split: sum.splits if_splits)

lemma control_peers_delete: "control_part (peers_delete s k) = control_part s"
  by (simp add: control_part_def registry_defs)

lemma control_handleOffer: "control_part (settle s (handleOffer env s d)) = control_part s"
proof (cases "handleOffer_glare s d")
  case None
  then show ?thesis by (simp add: handleOffer_def settle_def)
next
  case (Some a)
  obtain s1 pc1 where a: "a = (s1, pc1)" by (cases a)
  have s1: "control_part s1 = control_part s"
    using Some a control_handleOffer_glare by blast
  define s2 where "s2 = (case pc1 of None \<Rightarrow> createPeerConnection env s1 (o_from d) (o_name d) False
                        | Some _ \<Rightarrow> s1)"
  have s2: "control_part s2 = control_part s"
    using s1 by (simp add: s2_def control_createPeerConnection split: option.splits)
  show ?thesis
    using Some a s2
    by (auto simp: handleOffer_def settle_def Let_def s2_def[symmetric] control_peers_delete
          split: option.splits prod.splits dest: control_handleOffer_try)
qed

lemma control_handleAnswer: "control_part (settle s (handleAnswer env s d)) = control_part s"
  by (simp add: handleAnswer_def settle_def control_part_def registry_defs
        split: option.splits sum.splits)

lemma control_handleIceCandidate:
  "control_part (settle s (handleIceCandidate env s d)) = control_part s"
  by (simp add: handleIceCandidate_def settle_def control_part_def registry_defs
        split: option.splits sum.splits)

lemma control_onPresenceJoin: "control_part (onPresenceJoin env s ps) = control_part s"
  unfolding onPresenceJoin_def
  by (rule fold_invariant[where P = "\<lambda>s'. control_part s' = control_part s"])
     (simp_all add: control_handleUserJoined)

lemma control_onPresenceLeave: "control_part (onPresenceLeave s ps) = control_part s"
  unfolding onPresenceLeave_def
  by (rule fold_invariant[where P = "\<lambda>s'. control_part s' = control_part s"])
     (simp_all add: handleUserLeft_def control_close_and_drop)

lemma control_handlePresenceSync: "control_part (handlePresenceSync env s st) = control_part s"
  unfolding handlePresenceSync_def
proof (rule fold_invariant[where P = "\<lambda>s'. control_part s' = control_part s"])
  fix x s1 assume "control_part s1 = control_part s"
  then show "control_part ((case x of (key, presences) \<Rightarrow> \<lambda>s1. fold (\<lambda>pr s'.
                     if pr_participantId pr \<noteq> participantId s' \<and>
                        \<not> peers_has s' (pr_participantId pr)
                     then handleUserJoined env s'
                            \<lparr>j_participantId = pr_participantId pr, j_name = pr_name pr\<rparr>
                     else s') presences s1) s1) = control_part s"
    by (cases x, simp,
        intro fold_invariant[where P = "\<lambda>s'. control_part s' = control_part s"])
       (simp_all add: control_handleUserJoined)
qed simp

lemma control_checkForNewParticipants:
  "control_part (checkForNewParticipants env s res) = control_part s"
proof (cases res)
  case (Inl e)
  then show ?thesis by (simp add: checkForNewParticipants_def)
next
  case (Inr rows)
  show ?thesis
    unfolding checkForNewParticipants_def Inr sum.case
    by (rule fold_invariant[where P = "\<lambda>s'. control_part s' = control_part s"])
       (simp_all add: control_handleUserJoined)
qed

lemma control_leaveMeeting: "control_part (settle s (leaveMeeting s)) = control_part s"
  by (simp add: leaveMeeting_def settle_def control_part_def registry_defs Let_def
        clearInterval_def presence_untrack_def close_all_def split: option.splits)

lemma control_peers_forEach: "control_part (peers_forEach s f) = control_part s"
  by (simp add: control_part_def peers_forEach_def)

lemma control_applyBackgroundBlur:
  "control_part (applyBackgroundBlur s supported t) = control_part s"
  by (simp add: applyBackgroundBlur_def control_part_def peers_forEach_def Let_def
        split: option.splits)

lemma control_removeBackgroundBlur: "control_part (removeBackgroundBlur s res) = control_part s"
  by (simp add: removeBackgroundBlur_def control_part_def peers_forEach_def Let_def
        split: option.splits sum.splits)

lemma control_updates:
  "control_part (s\<lparr>localStream := ls\<rparr>) = control_part s"
  "control_part (s\<lparr>backgroundBlurEnabled := b\<rparr>) = control_part s"
  "control_part (s\<lparr>onPeerLeftCallback := b\<rparr>) = control_part s"
  "control_part (s\<lparr>signalingSubscribed := b\<rparr>) = control_part s"
  "control_part (s\<lparr>presenceTracked := b\<rparr>) = control_part s"
  "control_part (send s m) = control_part s"
  "control_part (with_peer s k p) = control_part s"
  by (simp_all add: control_part_def registry_defs)

lemma control_media:
  "control_part (settle s (initializeMedia s video audio res supported t)) = control_part s"
  "control_part (toggleAudio s en) = control_part s"
  "control_part (toggleVideo s en) = control_part s"
  "control_part (settle s (startScreenShare s res)) = control_part s"
  "control_part (screenShare_onended s) = control_part s"
  "control_part (settle s (toggleBackgroundBlur s en supported t res)) = control_part s"
  "control_part (settle s (raiseHand s raised)) = control_part s"
  by (simp_all add: initializeMedia_def toggleAudio_def toggleVideo_def startScreenShare_def
        screenShare_onended_def toggleBackgroundBlur_def raiseHand_def settle_def
        control_applyBackgroundBlur control_removeBackgroundBlur control_peers_forEach
        control_updates Let_def split: option.splits sum.splits)

lemma control_misc:
  "control_part (onicecandidate s pid cand) = control_part s"
  "control_part (fire_Reannounce s) = control_part s"
  "control_part (fire_Resubscribe s) = control_part s"
  "control_part (onPeerLeft s) = control_part s"
  "control_part (fire_Reconnect env s pid nm) = control_part s"
  "control_part (handleUserLeft s pid) = control_part s"
  by (simp_all add: onicecandidate_def fire_Reannounce_def fire_Resubscribe_def onPeerLeft_def
        fire_Reconnect_def handleUserLeft_def announce_def presence_track_def setupSignaling_def
        control_updates control_createPeerConnection control_close_and_drop)

lemma step_control_part:
  "\<not> writes_control ev \<Longrightarrow> control_part (step env s ev) = control_part s"
  by (cases ev)
     (simp_all add: control_handleUserJoined control_handleOffer control_handleAnswer
        control_handleIceCandidate control_onPresenceJoin control_onPresenceLeave
        control_handlePresenceSync control_checkForNewParticipants control_leaveMeeting
        control_media control_misc)

lemma handleConnectionFailure_control:
  "control_part (handleConnectionFailure s pid nm) =
     (participantId s, participantName s, isInitialized s,
      (if reconnectAttempts s < maxReconnectAttempts s then reconnectAttempts s + 1
       else reconnectAttempts s),
      maxReconnectAttempts s,
      (if reconnectAttempts s < maxReconnectAttempts s
       then timeouts s @ [(2000 * (reconnectAttempts s + 1), Reconnect pid nm)]
       else timeouts s))"
  using control_close_and_drop[of s pid]
  by (simp add: handleConnectionFailure_def Let_def control_part_def setTimeout_def)

lemma step_isInitialized: "isInitialized s \<Longrightarrow> isInitialized (step env s ev)"
proof (cases "writes_control ev")
  case False
  then have "control_part (step env s ev) = control_part s"
    by (rule step_control_part)
  moreover assume "isInitialized s"
  ultimately show ?thesis by (simp add: control_part_def)
next
  case True
  assume init: "isInitialized s"
  have hcf: "isInitialized (handleConnectionFailure s pid nm)" for pid nm
    using handleConnectionFailure_control[of s pid nm] init by (simp add: control_part_def)
  from True init hcf show ?thesis
    by (cases ev)
       (simp_all add: onconnectionstatechange_def fire_DisconnectedGrace_def onChannelError_def
          joinMeeting_def refreshConnection_def settle_def setTimeout_def Let_def
          peers_clear_def close_all_def setupSignaling_def)
qed

lemma run_isInitialized: "isInitialized s \<Longrightarrow> isInitialized (run s evs)"
  unfolding run_def
  by (induction evs arbitrary: s) (auto simp: step_isInitialized)

text \<open>
  The keys of the map: a handler adds at most the key of the peer it is about, and it never
  lists a key twice.
\<close>

lemma grows_refl: "registry_grows K s s"
  by (simp add: registry_grows_def)

lemma grows_trans:
  "registry_grows K s s1 \<Longrightarrow> registry_grows K' s1 s2 \<Longrightarrow> registry_grows (K \<union> K') s s2"
  by (auto simp: registry_grows_def)

lemma grows_mono: "registry_grows K s s' \<Longrightarrow> K \<subseteq> K' \<Longrightarrow> registry_grows K' s s'"
  by (auto simp: registry_grows_def)

lemma grows_same_peers: "peers s' = peers s \<Longrightarrow> registry_grows K s s'"
  by (simp add: registry_grows_def known_peers_def)

lemma grows_same_keys: "map fst (peers s') = map fst (peers s) \<Longrightarrow> registry_grows K s s'"
  by (simp add: registry_grows_def known_peers_def flip: set_map)

lemma map_fst_map_entry: "map fst (AList.map_entry k f xs) = map fst xs"
  by (induction xs) auto

lemma grows_peers_set: "registry_grows {k} s (peers_set s k pc)"
  by (simp add: registry_grows_def known_peers_def peers_set_def dom_update distinct_update)

lemma grows_peers_delete: "registry_grows {} s (peers_delete s k)"
  using dom_delete_subset[of k "peers s"]
  by (simp add: registry_grows_def known_peers_def peers_delete_def distinct_delete)

lemma grows_with_peer: "registry_grows {} s (with_peer s k p)"
  by (rule grows_same_keys) (simp add: with_peer_def map_fst_map_entry)

lemma grows_peers_clear: "registry_grows {} s (peers_clear s)"
  by (simp add: registry_grows_def known_peers_def peers_clear_def)

lemma grows_peers_forEach: "registry_grows {} s (peers_forEach s f)"
  by (rule grows_same_keys) (simp add: peers_forEach_def case_prod_unfold comp_def)

lemma grows_close_all: "registry_grows {} s (close_all s)"
  by (rule grows_same_keys) (simp add: close_all_def case_prod_unfold comp_def)

lemma grows_send: "registry_grows {} s (send s m)"
  by (rule grows_same_peers) (simp add: send_def)

lemma grows_setTimeout: "registry_grows {} s (setTimeout s act delay)"
  by (rule grows_same_peers) (simp add: setTimeout_def)

lemmas grows_primitives =
  grows_peers_set grows_peers_delete grows_with_peer grows_peers_clear grows_peers_forEach
  grows_close_all grows_send grows_setTimeout

lemma grows_createPeerConnection:
  "registry_grows {pid} s (createPeerConnection env s pid nm ini)"
proof -
  define p1 where
    "p1 = attach_local_tracks s (new_RTCPeerConnection (participantId s) (next_conn s))"
  define s0 where "s0 = s\<lparr>next_conn := Suc (next_conn s)\<rparr>"
  define s1 where "s1 = peers_set s0 pid \<lparr>peerId = pid, peer = p1, name = nm\<rparr>"
  have 0: "registry_grows {} s s0" by (rule grows_same_peers) (simp add: s0_def)
  have 1: "registry_grows {pid} s s1"
    using grows_trans[OF 0 grows_primitives(1)[of pid s0]] by (simp add: s1_def)
  have del: "registry_grows {pid} s (peers_delete s1 pid)"
    using grows_trans[OF 1 grows_primitives(2)] by simp
  have snd: "registry_grows {pid} s (send (with_peer s1 pid p2) m)" for p2 m
    using grows_trans[OF grows_trans[OF 1 grows_primitives(3)] grows_primitives(7)] by simp
  show ?thesis
    using 1 del snd
    by (simp add: createPeerConnection_def Let_def p1_def[symmetric] s0_def[symmetric]
          s1_def[symmetric] split: sum.splits)
qed

lemma grows_handleUserJoined:
  "registry_grows {j_participantId d} s (handleUserJoined env s d)"
  by (simp add: handleUserJoined_def grows_refl grows_createPeerConnection)

lemma grows_close_and_drop: "registry_grows {} s (close_and_drop s pid)"
proof (cases "peers_get s pid")
  case None
  then show ?thesis by (simp add: close_and_drop_def grows_refl)
next
  case (Some pc)
  have "registry_grows {} s (peers_delete (with_peer s pid (rtc_close (peer pc))) pid)"
    using grows_trans[OF grows_primitives(3) grows_primitives(2)] by simp
  moreover have "registry_grows {} s' (s'\<lparr>peerLeftCalls := x\<rparr>)" for s' x
    by (rule grows_same_peers) simp
  ultimately show ?thesis
    using Some grows_trans[of "{}" s _ "{}"]
    by (auto simp: close_and_drop_def Let_def)
qed


lemma grows_step:
  "registry_grows K s s1 \<Longrightarrow> registry_grows K' s1 s2 \<Longrightarrow> K' \<subseteq> K \<Longrightarrow> registry_grows K s s2"
  using grows_trans[of K s s1 K' s2] by (simp add: Un_absorb2)

lemma grows_handleConnectionFailure: "registry_grows {} s (handleConnectionFailure s pid nm)"
proof -
  have "registry_grows {} s' (s'\<lparr>reconnectAttempts := n\<rparr>)" for s' n
    by (rule grows_same_peers) simp
  then show ?thesis
    using grows_close_and_drop[of s pid]
    by (auto simp: handleConnectionFailure_def Let_def
          intro: grows_step[OF _ grows_setTimeout] grows_step)
qed

lemma grows_handleOffer_glare:
  "handleOffer_glare s d = Some (s1, pc1) \<Longrightarrow> registry_grows {} s s1"
  using grows_trans[OF grows_with_peer grows_peers_delete]
  by (auto simp: handleOffer_glare_def grows_refl split: option.splits if_splits)

lemma grows_handleOffer_try:
  "handleOffer_try env s d pc = (s3, r) \<Longrightarrow> registry_grows {} s s3"
  using grows_with_peer
    grows_step[OF grows_step[OF grows_with_peer grows_with_peer] grows_send]
  by (auto simp: handleOffer_try_def Let_def grows_refl split: sum.splits if_splits)

lemma grows_handleOffer: "registry_grows {o_from d} s (settle s (handleOffer env s d))"
proof (cases "o_to d \<noteq> participantId s \<or> handleOffer_glare s d = None")
  case True
  then show ?thesis by (auto simp: handleOffer_def settle_def grows_refl)
next
  case False
  then obtain s1 pc1 where g: "handleOffer_glare s d = Some (s1, pc1)" by auto
  define s2 where "s2 = (case pc1 of None \<Rightarrow> createPeerConnection env s1 (o_from d) (o_name d) False
                        | Some _ \<Rightarrow> s1)"
  have 1: "registry_grows {o_from d} s s1"
    using grows_handleOffer_glare[OF g] by (rule grows_mono) simp
  have 2: "registry_grows {o_from d} s s2"
    using 1 grows_step[OF 1 grows_createPeerConnection]
    by (simp add: s2_def split: option.splits)
  have 3: "registry_grows {o_from d} s s3" if "handleOffer_try env s2 d pc = (s3, r)" for pc s3 r
    using grows_step[OF 2 grows_handleOffer_try[OF that]] by simp
  have 4: "registry_grows {o_from d} s (peers_delete s3 k)"
    if "handleOffer_try env s2 d pc = (s3, r)" for pc s3 r k
    using grows_step[OF 3[OF that] grows_peers_delete] by simp
  show ?thesis
    using False g 2 3 4
    by (auto simp: handleOffer_def settle_def Let_def s2_def[symmetric]
          split: option.splits prod.splits)
qed

lemma grows_handleAnswer: "registry_grows {} s (settle s (handleAnswer env s d))"
  using grows_with_peer
  by (simp add: handleAnswer_def settle_def grows_refl split: option.splits sum.splits)

lemma grows_handleIceCandidate: "registry_grows {} s (settle s (handleIceCandidate env s d))"
  using grows_with_peer
  by (simp add: handleIceCandidate_def settle_def grows_refl split: option.splits sum.splits)

lemma grows_onPresenceJoin:
  "registry_grows (set (map pr_participantId ps)) s (onPresenceJoin env s ps)"
  unfolding onPresenceJoin_def
proof (rule fold_invariant[where P = "registry_grows (set (map pr_participantId ps)) s"])
  fix x s' assume "x \<in> set ps" "registry_grows (set (map pr_participantId ps)) s s'"
  then show "registry_grows (set (map pr_participantId ps)) s
          (if pr_participantId x \<noteq> participantId s'
           then handleUserJoined env s'
                  \<lparr>j_participantId = pr_participantId x, j_name = pr_name x\<rparr>
           else s')"
    using grows_step[OF _ grows_handleUserJoined, of _ s s'
            "\<lparr>j_participantId = pr_participantId x, j_name = pr_name x\<rparr>" env]
    by auto
qed (rule grows_refl)

lemma grows_onPresenceLeave: "registry_grows {} s (onPresenceLeave s ps)"
  unfolding onPresenceLeave_def
  by (rule fold_invariant[where P = "registry_grows {} s"])
     (auto simp: handleUserLeft_def grows_refl intro: grows_step[OF _ grows_close_and_drop])

lemma grows_sync_inner:
  assumes "registry_grows K s s1" "set (map pr_participantId prs) \<subseteq> K"
  shows "registry_grows K s
           (fold (\<lambda>pr s'. if pr_participantId pr \<noteq> participantId s' \<and>
                        \<not> peers_has s' (pr_participantId pr)
                     then handleUserJoined env s'
                            \<lparr>j_participantId = pr_participantId pr, j_name = pr_name pr\<rparr>
                     else s') prs s1)"
proof (rule fold_invariant[where P = "registry_grows K s"])
  fix x s' assume "x \<in> set prs" "registry_grows K s s'"
  then show "registry_grows K s
          (if pr_participantId x \<noteq> participantId s' \<and> \<not> peers_has s' (pr_participantId x)
           then handleUserJoined env s'
                  \<lparr>j_participantId = pr_participantId x, j_name = pr_name x\<rparr>
           else s')"
    using assms(2)
      grows_step[OF _ grows_handleUserJoined, of K s s'
        "\<lparr>j_participantId = pr_participantId x, j_name = pr_name x\<rparr>" env]
    by auto
qed (rule assms(1))

lemma grows_handlePresenceSync:
  "registry_grows (set (map pr_participantId (concat (map snd st)))) s
     (handlePresenceSync env s st)"
  unfolding handlePresenceSync_def
proof (rule fold_invariant
         [where P = "registry_grows (set (map pr_participantId (concat (map snd st)))) s"])
  fix x s1
  assume x: "x \<in> set st"
    and g: "registry_grows (set (map pr_participantId (concat (map snd st)))) s s1"
  obtain key prs where p: "x = (key, prs)" by (cases x)
  with x have "set (map pr_participantId prs) \<subseteq> set (map pr_participantId (concat (map snd st)))"
    by force
  with g show "registry_grows (set (map pr_participantId (concat (map snd st)))) s
          ((case x of (key, presences) \<Rightarrow> \<lambda>s1. fold (\<lambda>pr s'.
                     if pr_participantId pr \<noteq> participantId s' \<and>
                        \<not> peers_has s' (pr_participantId pr)
                     then handleUserJoined env s'
                            \<lparr>j_participantId = pr_participantId pr, j_name = pr_name pr\<rparr>
                     else s') presences s1) s1)"
    unfolding p prod.case by (rule grows_sync_inner)
qed (rule grows_refl)

lemma grows_checkForNewParticipants:
  "registry_grows (case res of Inl e \<Rightarrow> {} | Inr rows \<Rightarrow> set (map row_id rows)) s
     (checkForNewParticipants env s res)"
proof (cases res)
  case (Inl e)
  then show ?thesis by (simp add: checkForNewParticipants_def grows_refl)
next
  case (Inr rows)
  show ?thesis
    unfolding checkForNewParticipants_def Inr sum.case
  proof (rule fold_invariant[where P = "registry_grows (set (map row_id rows)) s"])
    fix x s' assume "x \<in> set rows" "registry_grows (set (map row_id rows)) s s'"
    then show "registry_grows (set (map row_id rows)) s
          (if row_name x \<noteq> participantName s' \<and> \<not> peers_has s' (row_id x)
           then handleUserJoined env s' \<lparr>j_participantId = row_id x, j_name = row_name x\<rparr>
           else s')"
      using grows_step[OF _ grows_handleUserJoined, of _ s s'
              "\<lparr>j_participantId = row_id x, j_name = row_name x\<rparr>" env]
      by auto
  qed (rule grows_refl)
qed


lemma keys_peers_forEach: "map fst (peers (peers_forEach s f)) = map fst (peers s)"
  by (simp add: peers_forEach_def case_prod_unfold comp_def)

lemma keys_media:
  "map fst (peers (applyBackgroundBlur s supported t)) = map fst (peers s)"
  "map fst (peers (removeBackgroundBlur s res)) = map fst (peers s)"
  "map fst (peers (settle s (toggleBackgroundBlur s en supported t res))) = map fst (peers s)"
  "map fst (peers (settle s (startScreenShare s res'))) = map fst (peers s)"
  "map fst (peers (screenShare_onended s)) = map fst (peers s)"
  "map fst (peers (settle s (initializeMedia s video audio res' supported t))) = map fst (peers s)"
  by (simp_all add: applyBackgroundBlur_def removeBackgroundBlur_def toggleBackgroundBlur_def
        startScreenShare_def screenShare_onended_def initializeMedia_def settle_def Let_def
        keys_peers_forEach split: option.splits sum.splits)

lemma grows_rest:
  "registry_grows {} s (onconnectionstatechange s cid pid nm st)"
  "registry_grows {} s (fire_DisconnectedGrace s still pid nm)"
  "registry_grows {} s (onicecandidate s pid cand)"
  "registry_grows {} s (onChannelError s)"
  "registry_grows {} s (fire_Reannounce s)"
  "registry_grows {} s (fire_Resubscribe s)"
  "registry_grows {} s (settle s (joinMeeting s))"
  "registry_grows {} s (settle s (leaveMeeting s))"
  "registry_grows {} s (settle s (refreshConnection s))"
  "registry_grows {} s (toggleAudio s en)"
  "registry_grows {} s (toggleVideo s en)"
  "registry_grows {} s (settle s (raiseHand s raised))"
  "registry_grows {} s (onPeerLeft s)"
  "registry_grows {} s (handleUserLeft s pid)"
proof -
  show "registry_grows {} s (onconnectionstatechange s cid pid nm st)"
    by (auto simp: onconnectionstatechange_def grows_handleConnectionFailure grows_setTimeout
          grows_refl intro: grows_same_peers)
  show "registry_grows {} s (fire_DisconnectedGrace s still pid nm)"
    by (simp add: fire_DisconnectedGrace_def grows_handleConnectionFailure grows_refl)
  show "registry_grows {} s (handleUserLeft s pid)"
    by (simp add: handleUserLeft_def grows_close_and_drop)
  show "registry_grows {} s (settle s (leaveMeeting s))"
    by (simp add: leaveMeeting_def settle_def Let_def registry_grows_def known_peers_def
          peers_clear_def)
  show "registry_grows {} s (settle s (refreshConnection s))"
    by (simp add: refreshConnection_def settle_def Let_def registry_grows_def known_peers_def
          peers_clear_def setTimeout_def setupSignaling_def)
qed (rule grows_same_peers,
     simp add: onicecandidate_def onChannelError_def fire_Reannounce_def fire_Resubscribe_def
       joinMeeting_def toggleAudio_def toggleVideo_def raiseHand_def onPeerLeft_def
       settle_def announce_def presence_track_def setupSignaling_def send_def setTimeout_def
       Let_def split: option.splits)+

lemma step_registry_grows: "registry_grows {pid. may_create pid ev} s (step env s ev)"
proof (cases ev)
  case (UserJoined d)
  then show ?thesis using grows_handleUserJoined[of d s env] by (simp add: registry_grows_def)
next
  case (OfferReceived d)
  then show ?thesis using grows_handleOffer[of d s env] by (simp add: registry_grows_def)
next
  case (PresenceJoin ps)
  then show ?thesis using grows_onPresenceJoin[of ps s env] by (simp add: registry_grows_def)
next
  case (PresenceSync st)
  then show ?thesis using grows_handlePresenceSync[of st s env] by (simp add: registry_grows_def)
next
  case (RosterPoll res)
  then show ?thesis
    using grows_checkForNewParticipants[of res s env]
    by (cases res) (simp_all add: registry_grows_def)
next
  case (ReconnectFired p nm)
  then show ?thesis
    using grows_createPeerConnection[of p s env nm True]
    by (simp add: registry_grows_def fire_Reconnect_def)
qed (simp_all add: grows_rest grows_handleAnswer grows_handleIceCandidate grows_onPresenceLeave
       grows_refl grows_same_keys keys_media)

lemma run_registry_grows:
  "registry_grows {pid. \<exists>(env, ev) \<in> set evs. may_create pid ev} s (run s evs)"
proof (induction evs arbitrary: s)
  case Nil
  show ?case by (simp add: run_def grows_refl)
next
  case (Cons a evs)
  obtain env ev where a: "a = (env, ev)" by (cases a)
  have "registry_grows ({pid. may_create pid ev} \<union> {pid. \<exists>(env, ev) \<in> set evs. may_create pid ev})
          s (run (step env s ev) evs)"
    using grows_trans[OF step_registry_grows Cons.IH] .
  moreover have "run s (a # evs) = run (step env s ev) evs"
    by (simp add: a run_def)
  ultimately show ?case
    by (auto simp: a elim: grows_mono)
qed

lemma reachable_distinct:
  "distinct (map fst (peers (run (new_WebRTCManager m p n) evs)))"
  using run_registry_grows[of evs "new_WebRTCManager m p n"]
  by (simp add: registry_grows_def new_WebRTCManager_fields)

lemma absent_until_created:
  assumes "\<not> peers_has s pid" "\<forall>(env, ev) \<in> set evs. \<not> may_create pid ev"
  shows "\<not> peers_has (run s evs) pid"
  using run_registry_grows[of evs s] assms
  by (auto simp: registry_grows_def known_peers_def peers_has_def peers_get_def
        map_of_eq_None_iff)


subsection \<open>Messages for somebody else\<close>

text \<open>
  Claim C4. An offer, an answer or a candidate whose \<^verbatim>\<open>to\<close> field is not the local
  participant id is discarded: the handler resolves with the manager it was given, whatever
  the map holds, so no record is touched and nothing is sent.
\<close>

theorem misaddressed_message_discarded:
  "(o_to od \<noteq> participantId s \<longrightarrow> handleOffer env s od = Inr s) \<and>
   (a_to ad \<noteq> participantId s \<longrightarrow> handleAnswer env s ad = Inr s) \<and>
   (c_to cd \<noteq> participantId s \<longrightarrow> handleIceCandidate env s cd = Inr s)"
  by (simp add: handleOffer_def handleAnswer_def handleIceCandidate_def)

theorem misaddressed_message_discarded_witness:
  "handleOffer no_faults (new_WebRTCManager ''m'' ''alice'' ''Alice'')
     \<lparr>o_from = ''bob'', o_to = ''carol'',
      o_offer = \<lparr>sdp_type = Offer, sdp_owner = ''bob'', sdp_conn = 0\<rparr>, o_name = ''Bob''\<rparr>
     = Inr (new_WebRTCManager ''m'' ''alice'' ''Alice'') \<and>
   handleAnswer no_faults (new_WebRTCManager ''m'' ''alice'' ''Alice'')
     \<lparr>a_from = ''bob'', a_to = ''carol'',
      a_answer = \<lparr>sdp_type = Answer, sdp_owner = ''bob'', sdp_conn = 0\<rparr>, a_name = ''Bob''\<rparr>
     = Inr (new_WebRTCManager ''m'' ''alice'' ''Alice'') \<and>
   handleIceCandidate no_faults (new_WebRTCManager ''m'' ''alice'' ''Alice'')
     \<lparr>c_from = ''bob'', c_to = ''carol'', c_candidate = ''candidate:1''\<rparr>
     = Inr (new_WebRTCManager ''m'' ''alice'' ''Alice'')"
  using misaddressed_message_discarded
    [of "\<lparr>o_from = ''bob'', o_to = ''carol'',
          o_offer = \<lparr>sdp_type = Offer, sdp_owner = ''bob'', sdp_conn = 0\<rparr>, o_name = ''Bob''\<rparr>"
        "new_WebRTCManager ''m'' ''alice'' ''Alice''" no_faults
        "\<lparr>a_from = ''bob'', a_to = ''carol'',
          a_answer = \<lparr>sdp_type = Answer, sdp_owner = ''bob'', sdp_conn = 0\<rparr>, a_name = ''Bob''\<rparr>"
        "\<lparr>c_from = ''bob'', c_to = ''carol'', c_candidate = ''candidate:1''\<rparr>"]
  by (simp add: new_WebRTCManager_fields)

subsection \<open>Joins for a peer that is already known\<close>

lemma handleUserJoined_known: "peers_has s (j_participantId d) \<Longrightarrow> handleUserJoined env s d = s"
  by (simp add: handleUserJoined_def)

lemma onPresenceJoin_known:
  assumes "\<forall>pr \<in> set ps. peers_has s (pr_participantId pr)"
  shows "onPresenceJoin env s ps = s"
  unfolding onPresenceJoin_def
  by (rule fold_unchanged) (simp add: assms handleUserJoined_known)

lemma handlePresenceSync_known:
  assumes "\<forall>(key, prs) \<in> set st. \<forall>pr \<in> set prs. peers_has s (pr_participantId pr)"
  shows "handlePresenceSync env s st = s"
  unfolding handlePresenceSync_def
proof (rule fold_unchanged)
  fix x assume "x \<in> set st"
  then have *: "\<forall>pr \<in> set (snd x). peers_has s (pr_participantId pr)"
    using assms by (cases x) auto
  show "(case x of (key, presences) \<Rightarrow> \<lambda>s1. fold (\<lambda>pr s'. if pr_participantId pr \<noteq> participantId s' \<and>
                        \<not> peers_has s' (pr_participantId pr)
                     then handleUserJoined env s'
                            \<lparr>j_participantId = pr_participantId pr, j_name = pr_name pr\<rparr>
                     else s') presences s1) s = s"
    using * by (cases x) (simp, intro fold_unchanged, simp)
qed

lemma checkForNewParticipants_known:
  assumes "\<forall>r \<in> set rows. peers_has s (row_id r)"
  shows "checkForNewParticipants env s (Inr rows) = s"
  unfolding checkForNewParticipants_def
  by (simp, rule fold_unchanged) (simp add: assms)

text \<open>
  Claim C7. A join for a peer that has a record in the map changes nothing, on each of the
  paths that raise joins: the \<^verbatim>\<open>user-joined\<close> broadcast, the presence \<^verbatim>\<open>join\<close> event, the
  presence sync and the roster poll. The manager that comes back is the one that went in,
  so no record is made and the record of the peer is the one it was. A second join for a
  peer right after the first therefore does nothing, whichever two paths raise them.
\<close>

theorem join_of_known_peer_is_noop:
  "(peers_has s (j_participantId d) \<longrightarrow> handleUserJoined env s d = s) \<and>
   ((\<forall>pr \<in> set ps. peers_has s (pr_participantId pr)) \<longrightarrow> onPresenceJoin env s ps = s) \<and>
   ((\<forall>(key, prs) \<in> set st. \<forall>pr \<in> set prs. peers_has s (pr_participantId pr)) \<longrightarrow>
      handlePresenceSync env s st = s) \<and>
   ((\<forall>r \<in> set rows. peers_has s (row_id r)) \<longrightarrow>
      checkForNewParticipants env s (Inr rows) = s)"
  using handleUserJoined_known onPresenceJoin_known handlePresenceSync_known
    checkForNewParticipants_known by blast

theorem join_of_known_peer_is_noop_witness:
  "peers_has alice1 ''bob'' \<and>
   handleUserJoined no_faults alice1 \<lparr>j_participantId = ''bob'', j_name = ''Bob''\<rparr> = alice1 \<and>
   onPresenceJoin no_faults alice1 [\<lparr>pr_participantId = ''bob'', pr_name = ''Bob''\<rparr>] = alice1 \<and>
   handlePresenceSync no_faults alice1
     [(''key'', [\<lparr>pr_participantId = ''bob'', pr_name = ''Bob''\<rparr>])] = alice1 \<and>
   checkForNewParticipants no_faults alice1 (Inr [\<lparr>row_id = ''bob'', row_name = ''Bob''\<rparr>])
     = alice1"
  using alice1_has_bob
    join_of_known_peer_is_noop
      [of alice1 "\<lparr>j_participantId = ''bob'', j_name = ''Bob''\<rparr>" no_faults
          "[\<lparr>pr_participantId = ''bob'', pr_name = ''Bob''\<rparr>]"
          "[(''key'', [\<lparr>pr_participantId = ''bob'', pr_name = ''Bob''\<rparr>])]"
          "[\<lparr>row_id = ''bob'', row_name = ''Bob''\<rparr>]"]
  by simp


subsection \<open>The roster poll filters by display name\<close>

lemma poll_fold_filter:
  "participantName s = nm \<Longrightarrow>
   fold (\<lambda>participant s'.
                  if row_name participant \<noteq> participantName s' \<and>
                     \<not> peers_has s' (row_id participant)
                  then handleUserJoined env s'
                         \<lparr>j_participantId = row_id participant, j_name = row_name participant\<rparr>
                  else s') rows s =
   fold (\<lambda>participant s'.
                  if row_name participant \<noteq> participantName s' \<and>
                     \<not> peers_has s' (row_id participant)
                  then handleUserJoined env s'
                         \<lparr>j_participantId = row_id participant, j_name = row_name participant\<rparr>
                  else s') (filter (\<lambda>r. row_name r \<noteq> nm) rows) s"
  by (induction rows arbitrary: s) (simp_all add: handleUserJoined_frame)

lemma poll_skips_local_name:
  "checkForNewParticipants env s (Inr rows) =
   checkForNewParticipants env s (Inr (filter (\<lambda>r. row_name r \<noteq> participantName s) rows))"
  unfolding checkForNewParticipants_def sum.case by (rule poll_fold_filter[OF refl])

text \<open>
  Claim C9. The roster poll skips every row whose name is the local display name: the
  poll of a roster is the poll of the roster without those rows, and a roster of such rows
  only changes nothing. For a participant with the local display name, an id that is not
  the local one and no record yet, the poll does nothing, while the presence \<^verbatim>\<open>join\<close> event
  and the presence sync, which compare ids, create the connection (and with it a new
  connection object).
\<close>

theorem poll_excludes_by_display_name:
  "checkForNewParticipants env s (Inr rows) =
     checkForNewParticipants env s (Inr (filter (\<lambda>r. row_name r \<noteq> participantName s) rows)) \<and>
   ((\<forall>r \<in> set rows. row_name r = participantName s) \<longrightarrow>
      checkForNewParticipants env s (Inr rows) = s) \<and>
   (pid \<noteq> participantId s \<and> \<not> peers_has s pid \<longrightarrow>
      checkForNewParticipants env s (Inr [\<lparr>row_id = pid, row_name = participantName s\<rparr>]) = s \<and>
      onPresenceJoin env s [\<lparr>pr_participantId = pid, pr_name = participantName s\<rparr>]
        = createPeerConnection env s pid (participantName s) True \<and>
      handlePresenceSync env s [(key, [\<lparr>pr_participantId = pid, pr_name = participantName s\<rparr>])]
        = createPeerConnection env s pid (participantName s) True \<and>
      next_conn (createPeerConnection env s pid (participantName s) True) = Suc (next_conn s))"
proof (intro conjI impI)
  show "checkForNewParticipants env s (Inr rows) =
     checkForNewParticipants env s (Inr (filter (\<lambda>r. row_name r \<noteq> participantName s) rows))"
    by (rule poll_skips_local_name)
next
  assume "\<forall>r \<in> set rows. row_name r = participantName s"
  then have "filter (\<lambda>r. row_name r \<noteq> participantName s) rows = []"
    by (simp add: filter_empty_conv)
  then show "checkForNewParticipants env s (Inr rows) = s"
    using poll_skips_local_name[of env s rows] by (simp add: checkForNewParticipants_def)
qed (simp_all add: checkForNewParticipants_def onPresenceJoin_def handlePresenceSync_def
       handleUserJoined_def createPeerConnection_frame)

theorem poll_excludes_by_display_name_witness:
  "checkForNewParticipants no_faults alice0 (Inr [\<lparr>row_id = ''zed'', row_name = ''Alice''\<rparr>])
     = alice0 \<and>
   onPresenceJoin no_faults alice0 [\<lparr>pr_participantId = ''zed'', pr_name = ''Alice''\<rparr>]
     = createPeerConnection no_faults alice0 ''zed'' ''Alice'' True \<and>
   handlePresenceSync no_faults alice0
     [(''key'', [\<lparr>pr_participantId = ''zed'', pr_name = ''Alice''\<rparr>])]
     = createPeerConnection no_faults alice0 ''zed'' ''Alice'' True \<and>
   next_conn (createPeerConnection no_faults alice0 ''zed'' ''Alice'' True) = Suc (next_conn alice0)"
proof -
  have name: "participantName alice0 = ''Alice''" and ident: "''zed'' \<noteq> participantId alice0"
    and new: "\<not> peers_has alice0 ''zed''"
    by (simp_all add: alice0_def new_WebRTCManager_fields peers_has_def peers_get_def)
  show ?thesis
    using poll_excludes_by_display_name
      [of no_faults alice0 "[\<lparr>row_id = ''zed'', row_name = ''Alice''\<rparr>]" "''zed''" "''key''"]
      ident new
    by (simp add: name checkForNewParticipants_known)
qed

subsection \<open>Joining once\<close>

text \<open>
  Claim C10. \<^verbatim>\<open>joinMeeting\<close> works once. With the flag set it resolves with the manager it
  was given: no presence is tracked, nothing is broadcast, no timer is set. The first call
  sets the flag, tracks the presence and broadcasts \<^verbatim>\<open>user-joined\<close>. \<^verbatim>\<open>leaveMeeting\<close> leaves
  the flag as it is, and so does every other event, so that once the flag is set it stays
  set in every run; joining again after leaving does nothing.
\<close>

theorem joinMeeting_one_shot:
  "(isInitialized s \<longrightarrow> joinMeeting s = Inr s) \<and>
   (\<not> isInitialized s \<longrightarrow>
      (\<exists>s1. joinMeeting s = Inr s1 \<and> isInitialized s1 \<and> presenceTracked s1 \<and>
            sent s1 = sent s @
              [UserJoinedEvent \<lparr>j_participantId = participantId s, j_name = participantName s\<rparr>])) \<and>
   (\<exists>s2. leaveMeeting s = Inr s2 \<and> isInitialized s2 = isInitialized s) \<and>
   (isInitialized s \<longrightarrow> isInitialized (run s evs)) \<and>
   (\<exists>s1 s2. joinMeeting s = Inr s1 \<and> leaveMeeting s1 = Inr s2 \<and> joinMeeting s2 = Inr s2 \<and>
            sent s2 = sent s1 @ [UserLeftEvent (participantId s)])"
proof (intro conjI impI)
  obtain s2 where "leaveMeeting s = Inr s2"
    by (simp add: leaveMeeting_def Let_def)
  then show "\<exists>s2. leaveMeeting s = Inr s2 \<and> isInitialized s2 = isInitialized s"
    using control_leaveMeeting[of s] by (simp add: settle_def control_part_def)
next
  assume "isInitialized s"
  then show "isInitialized (run s evs)" by (rule run_isInitialized)
next
  obtain s1 where s1: "joinMeeting s = Inr s1" and init1: "isInitialized s1"
    and id1: "participantId s1 = participantId s"
    by (cases "isInitialized s")
       (simp_all add: joinMeeting_def setTimeout_def announce_def send_def presence_track_def)
  obtain s2 where s2: "leaveMeeting s1 = Inr s2"
    by (simp add: leaveMeeting_def Let_def)
  have "control_part s2 = control_part s1"
    using control_leaveMeeting[of s1] s2 by (simp add: settle_def)
  then have init2: "isInitialized s2" using init1 by (simp add: control_part_def)
  have "sent s2 = sent s1 @ [UserLeftEvent (participantId s1)]"
    using s2
    by (auto simp: leaveMeeting_def Let_def registry_defs clearInterval_def presence_untrack_def
          close_all_def split: option.splits)
  with s1 s2 init2 id1
  show "\<exists>s1 s2. joinMeeting s = Inr s1 \<and> leaveMeeting s1 = Inr s2 \<and> joinMeeting s2 = Inr s2 \<and>
            sent s2 = sent s1 @ [UserLeftEvent (participantId s)]"
    by (simp add: joinMeeting_def)
qed (simp_all add: joinMeeting_def setTimeout_def announce_def send_def presence_track_def)

theorem joinMeeting_one_shot_witness:
  "isInitialized (settle alice0 (joinMeeting alice0)) \<and>
   joinMeeting (settle alice0 (joinMeeting alice0)) = Inr (settle alice0 (joinMeeting alice0)) \<and>
   isInitialized (run (settle alice0 (joinMeeting alice0)) [(no_faults, LeaveMeeting)])"
proof -
  have init: "isInitialized (settle alice0 (joinMeeting alice0))"
    by (simp add: joinMeeting_def settle_def setTimeout_def announce_def send_def
          presence_track_def)
  show ?thesis
    using init
      joinMeeting_one_shot
        [of "settle alice0 (joinMeeting alice0)" "[(no_faults, LeaveMeeting)]"]
    by simp
qed

subsection \<open>Statistics\<close>

lemma stats_fold:
  assumes "distinct (map fst ps)"
  shows "map_of (fold (\<lambda>(pid, pc) stats.
                  case getStats env (peer pc) of
                    Inl e \<Rightarrow> stats
                  | Inr report \<Rightarrow> AList.update pid report stats) ps acc) k =
         (case map_of ps k of
            None \<Rightarrow> map_of acc k
          | Some pc \<Rightarrow> (case getStats env (peer pc) of
                          Inl e \<Rightarrow> map_of acc k
                        | Inr report \<Rightarrow> Some report))"
  using assms
proof (induction ps arbitrary: acc)
  case Nil
  then show ?case by simp
next
  case (Cons a ps)
  obtain pid pc where a: "a = (pid, pc)" by (cases a)
  from Cons.prems a have notin: "map_of ps pid = None" and dist: "distinct (map fst ps)"
    by (auto simp: map_of_eq_None_iff)
  note IH = Cons.IH[OF dist]
  show ?case
  proof (cases "getStats env (peer pc)")
    case (Inl e)
    then show ?thesis using notin by (simp add: a IH split: option.splits)
  next
    case (Inr report)
    then show ?thesis
      using notin by (auto simp: a IH update_conv' split: option.splits sum.splits)
  qed
qed

text \<open>
  Claim C8. \<^verbatim>\<open>getConnectionStats\<close> always resolves, with a map that holds, for each peer of
  the registry, the report of its connection when \<^verbatim>\<open>getStats\<close> resolved and no entry when
  it rejected: what the map holds for one peer depends on the \<^verbatim>\<open>getStats\<close> call of that peer
  only. A peer without a record has no entry. The registry lists each key once, as every
  manager that a run from the constructor reaches does (\<open>reachable_distinct\<close>).
\<close>

theorem getConnectionStats_isolates_failures:
  assumes "distinct (map fst (peers s))"
  shows "\<exists>stats. getConnectionStats env s = Inr stats \<and>
           (\<forall>pid. map_of stats pid =
              (case peers_get s pid of
                 None \<Rightarrow> None
               | Some pc \<Rightarrow> (case getStats env (peer pc) of
                               Inl e \<Rightarrow> None
                             | Inr report \<Rightarrow> Some report)))"
  by (simp add: getConnectionStats_def peers_get_def stats_fold[OF assms]
        split: option.splits sum.splits)


theorem getConnectionStats_isolates_failures_witness:
  "distinct (map fst (peers alice2)) \<and>
   (\<exists>stats. getConnectionStats stats_fail_0 alice2 = Inr stats \<and>
      map_of stats ''bob'' = None \<and>
      map_of stats ''carol'' = Some \<lparr>stats_conn = 1, stats_state = ConnNew\<rparr>)"
proof -
  have d: "distinct (map fst (peers alice2))"
    unfolding alice2_def alice1_def alice0_def run_def[symmetric]
    using reachable_distinct
      [of "''m''" "''alice''" "''Alice''"
          "[(no_faults, UserJoined \<lparr>j_participantId = ''bob'', j_name = ''Bob''\<rparr>),
            (no_faults, UserJoined \<lparr>j_participantId = ''carol'', j_name = ''Carol''\<rparr>)]"]
    by (simp add: run_def)
  have bob: "peers_get alice2 ''bob'' =
      Some \<lparr>peerId = ''bob'',
            peer = \<lparr>conn_owner = ''alice'', conn_id = 0, signalingState = HaveLocalOffer,
                    connectionState = ConnNew,
                    localDescription =
                      Some \<lparr>sdp_type = Offer, sdp_owner = ''alice'', sdp_conn = 0\<rparr>,
                    remoteDescription = None, senders = [], remoteCandidates = [],
                    replaceTrackCalls = []\<rparr>,
            name = ''Bob''\<rparr>"
    by (simp add: alice2_def scenario_defs construction_defs signalling_defs platform_defs
          registry_defs Let_def)
  have carol: "peers_get alice2 ''carol'' =
      Some \<lparr>peerId = ''carol'',
            peer = \<lparr>conn_owner = ''alice'', conn_id = 1, signalingState = HaveLocalOffer,
                    connectionState = ConnNew,
                    localDescription =
                      Some \<lparr>sdp_type = Offer, sdp_owner = ''alice'', sdp_conn = 1\<rparr>,
                    remoteDescription = None, senders = [], remoteCandidates = [],
                    replaceTrackCalls = []\<rparr>,
            name = ''Carol''\<rparr>"
    by (simp add: alice2_def scenario_defs construction_defs signalling_defs platform_defs
          registry_defs Let_def)
  from getConnectionStats_isolates_failures[OF d, of stats_fail_0]
  obtain stats where "getConnectionStats stats_fail_0 alice2 = Inr stats"
    and all: "\<forall>pid. map_of stats pid =
              (case peers_get alice2 pid of
                 None \<Rightarrow> None
               | Some pc \<Rightarrow> (case getStats stats_fail_0 (peer pc) of
                               Inl e \<Rightarrow> None
                             | Inr report \<Rightarrow> Some report))"
    by blast
  moreover have "map_of stats ''bob'' = None"
    using all bob by (simp add: getStats_def stats_fail_0_def)
  moreover have "map_of stats ''carol'' = Some \<lparr>stats_conn = 1, stats_state = ConnNew\<rparr>"
    using all carol by (simp add: getStats_def stats_fail_0_def)
  ultimately show ?thesis using d by blast
qed

subsection \<open>Leaving\<close>

lemma leaveMeeting_result:
  "leaveMeeting s =
     Inr (s\<lparr>peers := [],
            detached := detached s @ map (rtc_close \<circ> peer \<circ> snd) (peers s),
            activeIntervals :=
              (let a1 = (case heartbeatInterval s of None \<Rightarrow> activeIntervals s
                         | Some h \<Rightarrow> removeAll h (activeIntervals s))
               in case participantCheckInterval s of None \<Rightarrow> a1 | Some h \<Rightarrow> removeAll h a1),
            presenceTracked := False,
            sent := sent s @ [UserLeftEvent (participantId s)],
            localStream := map_option (map stop_track) (localStream s),
            signalingSubscribed := False, presenceSubscribed := False\<rparr>)"
  by (cases "heartbeatInterval s"; cases "participantCheckInterval s")
     (simp_all add: leaveMeeting_def Let_def registry_defs clearInterval_def presence_untrack_def
        close_all_def comp_def case_prod_unfold)

text \<open>
  Claim C6. \<^verbatim>\<open>leaveMeeting\<close> resolves, and then the registry is empty, every connection
  object it held is closed (and kept among the detached objects), the handles of the
  heartbeat and of the roster poll are no longer among the running intervals, the presence
  is untracked, a \<^verbatim>\<open>user-left\<close> notice has been handed to the signalling channel and both
  channels are unsubscribed. A second call resolves too; it changes nothing but the list
  of what was handed to the signalling channel, where the notice stands once more. The
  calls of the realtime client are taken not to reject.
\<close>

theorem leaveMeeting_teardown_idempotent:
  "\<exists>s1 s2. leaveMeeting s = Inr s1 \<and> leaveMeeting s1 = Inr s2 \<and>
     peers s1 = [] \<and>
     detached s1 = detached s @ map (rtc_close \<circ> peer \<circ> snd) (peers s) \<and>
     set (activeIntervals s1) =
       set (activeIntervals s) -
         {h. heartbeatInterval s = Some h \<or> participantCheckInterval s = Some h} \<and>
     \<not> presenceTracked s1 \<and>
     sent s1 = sent s @ [UserLeftEvent (participantId s)] \<and>
     \<not> signalingSubscribed s1 \<and> \<not> presenceSubscribed s1 \<and>
     s2 = s1\<lparr>sent := sent s1 @ [UserLeftEvent (participantId s)]\<rparr>"
proof -
  define s1 where "s1 = settle s (leaveMeeting s)"
  have 1: "leaveMeeting s = Inr s1"
    by (simp add: s1_def settle_def leaveMeeting_result)
  have fields: "peers s1 = []"
    "detached s1 = detached s @ map (rtc_close \<circ> peer \<circ> snd) (peers s)"
    "\<not> presenceTracked s1" "sent s1 = sent s @ [UserLeftEvent (participantId s)]"
    "\<not> signalingSubscribed s1" "\<not> presenceSubscribed s1"
    "heartbeatInterval s1 = heartbeatInterval s"
    "participantCheckInterval s1 = participantCheckInterval s"
    "participantId s1 = participantId s"
    by (simp_all add: s1_def settle_def leaveMeeting_result)
  have act: "activeIntervals s1 =
      (let a1 = (case heartbeatInterval s of None \<Rightarrow> activeIntervals s
                 | Some h \<Rightarrow> removeAll h (activeIntervals s))
       in case participantCheckInterval s of None \<Rightarrow> a1 | Some h \<Rightarrow> removeAll h a1)"
    by (simp add: s1_def settle_def leaveMeeting_result)
  have timers: "set (activeIntervals s1) =
       set (activeIntervals s) -
         {h. heartbeatInterval s = Some h \<or> participantCheckInterval s = Some h}"
    unfolding act by (auto simp: Let_def split: option.splits)
  have "stop_track (stop_track t) = stop_track t" for t
    by (simp add: stop_track_def)
  then have "map_option (map stop_track) (map_option (map stop_track) ls) =
      map_option (map stop_track) ls" for ls
    by (cases ls) simp_all
  then have stop: "map_option (map stop_track) (localStream s1) = localStream s1"
    by (simp add: s1_def settle_def leaveMeeting_result)
  have again: "(let a1 = (case heartbeatInterval s1 of None \<Rightarrow> activeIntervals s1
                 | Some h \<Rightarrow> removeAll h (activeIntervals s1))
       in case participantCheckInterval s1 of None \<Rightarrow> a1 | Some h \<Rightarrow> removeAll h a1)
      = activeIntervals s1"
    unfolding fields act by (simp add: Let_def split: option.splits)
  have 2: "leaveMeeting s1 = Inr (s1\<lparr>sent := sent s1 @ [UserLeftEvent (participantId s)]\<rparr>)"
    unfolding leaveMeeting_result[of s1] again stop
    using fields by simp
  show ?thesis
    using 1 2 fields timers by blast
qed

theorem leaveMeeting_teardown_idempotent_witness:
  "\<exists>s1 s2. leaveMeeting alice1 = Inr s1 \<and> leaveMeeting s1 = Inr s2 \<and>
     peers s1 = [] \<and>
     detached s1 =
       [\<lparr>conn_owner = ''alice'', conn_id = 0, signalingState = SigClosed,
         connectionState = ConnClosed,
         localDescription = Some \<lparr>sdp_type = Offer, sdp_owner = ''alice'', sdp_conn = 0\<rparr>,
         remoteDescription = None, senders = [], remoteCandidates = [],
         replaceTrackCalls = []\<rparr>] \<and>
     activeIntervals s1 = [] \<and>
     sent s1 = [OfferEvent alice_offer, UserLeftEvent ''alice''] \<and>
     sent s2 = [OfferEvent alice_offer, UserLeftEvent ''alice'', UserLeftEvent ''alice'']"
proof -
  have alice1: "alice1 =
    \<lparr>localStream = None,
     peers = [(''bob'',
        \<lparr>peerId = ''bob'',
         peer = \<lparr>conn_owner = ''alice'', conn_id = 0, signalingState = HaveLocalOffer,
                 connectionState = ConnNew,
                 localDescription =
                   Some \<lparr>sdp_type = Offer, sdp_owner = ''alice'', sdp_conn = 0\<rparr>,
                 remoteDescription = None, senders = [], remoteCandidates = [],
                 replaceTrackCalls = []\<rparr>,
         name = ''Bob''\<rparr>)],
     meetingId = ''m'', participantId = ''alice'', participantName = ''Alice'',
     onPeerLeftCallback = False, isInitialized = False, reconnectAttempts = 0,
     maxReconnectAttempts = 5, heartbeatInterval = Some 1, participantCheckInterval = Some 2,
     backgroundBlurEnabled = False, detached = [], next_conn = 1,
     sent = [OfferEvent alice_offer], signalingSubscribed = True, presenceSubscribed = True,
     presenceTracked = False, timeouts = [], activeIntervals = [1, 2], next_timer = 3,
     peerLeftCalls = []\<rparr>"
    by (simp add: scenario_defs construction_defs signalling_defs platform_defs registry_defs
          Let_def)
  show ?thesis
    using leaveMeeting_teardown_idempotent[of alice1]
    by (auto simp: alice1 rtc_close_def)
qed

subsection \<open>Offers outside the legal states\<close>

lemma peers_get_simps:
  "peers_get (with_peer s k p) k' =
     (if k' = k then map_option (\<lambda>pc. pc\<lparr>peer := p\<rparr>) (peers_get s k) else peers_get s k')"
  "peers_get (peers_delete s k) k' = (if k' = k then None else peers_get s k')"
  "peers_get (peers_set s k v) k' = (if k' = k then Some v else peers_get s k')"
  "peers_get (send s m) k' = peers_get s k'"
  "peers_get (s\<lparr>next_conn := n\<rparr>) k' = peers_get s k'"
  by (auto simp: registry_defs map_of_map_entry update_conv' delete_conv' split: option.splits)

lemma attach_local_tracks_fields:
  "conn_id (attach_local_tracks s p) = conn_id p"
  "conn_owner (attach_local_tracks s p) = conn_owner p"
  "signalingState (attach_local_tracks s p) = signalingState p"
  "connectionState (attach_local_tracks s p) = connectionState p"
  "localDescription (attach_local_tracks s p) = localDescription p"
  "remoteDescription (attach_local_tracks s p) = remoteDescription p"
proof -
  have "conn_id (fold (\<lambda>t p'. addTrack p' t) ls p) = conn_id p \<and>
        conn_owner (fold (\<lambda>t p'. addTrack p' t) ls p) = conn_owner p \<and>
        signalingState (fold (\<lambda>t p'. addTrack p' t) ls p) = signalingState p \<and>
        connectionState (fold (\<lambda>t p'. addTrack p' t) ls p) = connectionState p \<and>
        localDescription (fold (\<lambda>t p'. addTrack p' t) ls p) = localDescription p \<and>
        remoteDescription (fold (\<lambda>t p'. addTrack p' t) ls p) = remoteDescription p" for ls
    by (induction ls arbitrary: p) (simp_all add: addTrack_def)
  then show "conn_id (attach_local_tracks s p) = conn_id p"
    "conn_owner (attach_local_tracks s p) = conn_owner p"
    "signalingState (attach_local_tracks s p) = signalingState p"
    "connectionState (attach_local_tracks s p) = connectionState p"
    "localDescription (attach_local_tracks s p) = localDescription p"
    "remoteDescription (attach_local_tracks s p) = remoteDescription p"
    by (simp_all add: attach_local_tracks_def split: option.splits)
qed

text \<open>The connection object a manager makes next.\<close>

lemma createPeerConnection_answerer:
  "createPeerConnection env s pid nm False =
     peers_set (s\<lparr>next_conn := Suc (next_conn s)\<rparr>) pid
       \<lparr>peerId = pid,
        peer = attach_local_tracks s (new_RTCPeerConnection (participantId s) (next_conn s)),
        name = nm\<rparr>"
  by (simp add: createPeerConnection_def Let_def)

lemma handleOffer_total: "\<exists>s'. handleOffer env s d = Inr s'"
  by (simp add: handleOffer_def Let_def split: option.splits prod.splits)

lemma handleOffer_existing:
  assumes "o_to d = participantId s" "peers_get s (o_from d) = Some pc"
    "signalingState (peer pc) \<noteq> HaveLocalOffer"
  shows "handleOffer env s d =
     Inr (case handleOffer_try env s d pc of
            (s3, None) \<Rightarrow> s3
          | (s3, Some e) \<Rightarrow> peers_delete s3 (o_from d))"
  using assms
  by (simp add: handleOffer_def handleOffer_glare_def Let_def split: prod.splits option.splits)

lemma handleOffer_try_out_of_state:
  "signalingState (peer pc) \<noteq> Stable \<Longrightarrow> signalingState (peer pc) \<noteq> HaveRemoteOffer \<Longrightarrow>
   handleOffer_try env s d pc = (s, None)"
  by (simp add: handleOffer_try_def)

text \<open>The \<^verbatim>\<open>try\<close> block on a record in a legal state, when no call rejects.\<close>

lemma handleOffer_try_applies:
  assumes st: "signalingState (peer pc) = Stable \<or> signalingState (peer pc) = HaveRemoteOffer"
    and off: "sdp_type (o_offer d) = Offer"
    and ok: "\<not> env (SetRemoteDescription (conn_id (peer pc)))"
      "\<not> env (CreateAnswer (conn_id (peer pc)))"
      "\<not> env (SetLocalDescription (conn_id (peer pc)))"
  shows "\<exists>p1 p2. handleOffer_try env s d pc =
     (send (with_peer (with_peer s (o_from d) p1) (o_from d) p2)
        (AnswerEvent \<lparr>a_from = participantId s, a_to = o_from d,
                      a_answer = \<lparr>sdp_type = Answer, sdp_owner = conn_owner (peer pc),
                                  sdp_conn = conn_id (peer pc)\<rparr>,
                      a_name = participantName s\<rparr>),
      None) \<and>
     signalingState p2 = Stable \<and> remoteDescription p2 = Some (o_offer d) \<and>
     localDescription p2 = Some \<lparr>sdp_type = Answer, sdp_owner = conn_owner (peer pc),
                                 sdp_conn = conn_id (peer pc)\<rparr> \<and>
     conn_id p2 = conn_id (peer pc) \<and> conn_owner p2 = conn_owner (peer pc)"
proof -
  define p1 where
    "p1 = peer pc\<lparr>signalingState := HaveRemoteOffer, remoteDescription := Some (o_offer d)\<rparr>"
  define ans where
    "ans = \<lparr>sdp_type = Answer, sdp_owner = conn_owner (peer pc), sdp_conn = conn_id (peer pc)\<rparr>"
  define p2 where "p2 = p1\<lparr>signalingState := Stable, localDescription := Some ans\<rparr>"
  have 1: "setRemoteDescription env (peer pc) (o_offer d) = Inr p1"
    using st off ok by (auto simp: setRemoteDescription_def p1_def)
  have 2: "createAnswer env p1 = Inr ans"
    using ok by (simp add: createAnswer_def p1_def ans_def)
  have 3: "setLocalDescription env p1 ans = Inr p2"
    using ok by (simp add: setLocalDescription_def p1_def p2_def ans_def)
  have "handleOffer_try env s d pc =
     (send (with_peer (with_peer s (o_from d) p1) (o_from d) p2)
        (AnswerEvent \<lparr>a_from = participantId s, a_to = o_from d, a_answer = ans,
                      a_name = participantName s\<rparr>), None)"
    using st by (simp add: handleOffer_try_def 1 2 3 Let_def)
  moreover have "signalingState p2 = Stable \<and> remoteDescription p2 = Some (o_offer d) \<and>
     localDescription p2 = Some ans \<and> conn_id p2 = conn_id (peer pc) \<and>
     conn_owner p2 = conn_owner (peer pc)"
    by (simp add: p2_def p1_def)
  ultimately show ?thesis unfolding ans_def by blast
qed

lemma handleOffer_try_rejected:
  assumes "signalingState (peer pc) = Stable \<or> signalingState (peer pc) = HaveRemoteOffer"
    and "setRemoteDescription env (peer pc) (o_offer d) = Inl e"
  shows "handleOffer_try env s d pc = (s, Some e)"
  using assms by (auto simp: handleOffer_try_def)

text \<open>
  Claim C2, as the code has it. \<^verbatim>\<open>handleOffer\<close> always resolves. For an offer addressed to
  self that meets a record which is not in the local-offer state (no glare):
  \<^item> in a state other than stable and have-remote-offer the offer is dropped and the
    manager, the record included, stays exactly as it was;
  \<^item> in one of the two legal states, when the platform rejects the description, the record
    is deleted (the \<^verbatim>\<open>catch\<close> block);
  \<^item> in one of the two legal states, when no call rejects, the offer becomes the remote
    description, the record ends stable and an answer is sent to the offerer.
\<close>

theorem offer_applied_only_in_legal_state:
  "(\<exists>s'. handleOffer env s d = Inr s') \<and>
   (o_to d = participantId s \<and> peers_get s (o_from d) = Some pc \<and>
    signalingState (peer pc) \<notin> {Stable, HaveRemoteOffer, HaveLocalOffer} \<longrightarrow>
      handleOffer env s d = Inr s) \<and>
   (o_to d = participantId s \<and> peers_get s (o_from d) = Some pc \<and>
    signalingState (peer pc) \<in> {Stable, HaveRemoteOffer} \<and>
    setRemoteDescription env (peer pc) (o_offer d) = Inl e \<longrightarrow>
      handleOffer env s d = Inr (peers_delete s (o_from d))) \<and>
   (o_to d = participantId s \<and> peers_get s (o_from d) = Some pc \<and>
    signalingState (peer pc) \<in> {Stable, HaveRemoteOffer} \<and> sdp_type (o_offer d) = Offer \<and>
    \<not> env (SetRemoteDescription (conn_id (peer pc))) \<and>
    \<not> env (CreateAnswer (conn_id (peer pc))) \<and>
    \<not> env (SetLocalDescription (conn_id (peer pc))) \<longrightarrow>
      (\<exists>s' pc'. handleOffer env s d = Inr s' \<and> peers_get s' (o_from d) = Some pc' \<and>
         remoteDescription (peer pc') = Some (o_offer d) \<and>
         signalingState (peer pc') = Stable \<and>
         sent s' = sent s @
           [AnswerEvent \<lparr>a_from = participantId s, a_to = o_from d,
                         a_answer = \<lparr>sdp_type = Answer, sdp_owner = conn_owner (peer pc),
                                     sdp_conn = conn_id (peer pc)\<rparr>,
                         a_name = participantName s\<rparr>]))"
proof (intro conjI impI)
  show "\<exists>s'. handleOffer env s d = Inr s'" by (rule handleOffer_total)
next
  assume "o_to d = participantId s \<and> peers_get s (o_from d) = Some pc \<and>
    signalingState (peer pc) \<notin> {Stable, HaveRemoteOffer, HaveLocalOffer}"
  then show "handleOffer env s d = Inr s"
    by (simp add: handleOffer_existing handleOffer_try_out_of_state)
next
  assume "o_to d = participantId s \<and> peers_get s (o_from d) = Some pc \<and>
    signalingState (peer pc) \<in> {Stable, HaveRemoteOffer} \<and>
    setRemoteDescription env (peer pc) (o_offer d) = Inl e"
  then show "handleOffer env s d = Inr (peers_delete s (o_from d))"
    by (auto simp: handleOffer_existing handleOffer_try_rejected)
next
  assume a: "o_to d = participantId s \<and> peers_get s (o_from d) = Some pc \<and>
    signalingState (peer pc) \<in> {Stable, HaveRemoteOffer} \<and> sdp_type (o_offer d) = Offer \<and>
    \<not> env (SetRemoteDescription (conn_id (peer pc))) \<and>
    \<not> env (CreateAnswer (conn_id (peer pc))) \<and>
    \<not> env (SetLocalDescription (conn_id (peer pc)))"
  then have "signalingState (peer pc) \<noteq> HaveLocalOffer" by auto
  with a show "\<exists>s' pc'. handleOffer env s d = Inr s' \<and> peers_get s' (o_from d) = Some pc' \<and>
         remoteDescription (peer pc') = Some (o_offer d) \<and>
         signalingState (peer pc') = Stable \<and>
         sent s' = sent s @
           [AnswerEvent \<lparr>a_from = participantId s, a_to = o_from d,
                         a_answer = \<lparr>sdp_type = Answer, sdp_owner = conn_owner (peer pc),
                                     sdp_conn = conn_id (peer pc)\<rparr>,
                         a_name = participantName s\<rparr>]"
    using handleOffer_try_applies[of pc d env s]
    by (auto simp: handleOffer_existing peers_get_simps)
       (simp_all add: send_def with_peer_def)
qed

lemma alice_pranswered_bob:
  "peers_get alice_pranswered ''bob'' =
     Some \<lparr>peerId = ''bob'',
           peer = \<lparr>conn_owner = ''alice'', conn_id = 0, signalingState = HaveRemotePranswer,
                   connectionState = ConnNew,
                   localDescription =
                     Some \<lparr>sdp_type = Offer, sdp_owner = ''alice'', sdp_conn = 0\<rparr>,
                   remoteDescription =
                     Some \<lparr>sdp_type = Pranswer, sdp_owner = ''bob'', sdp_conn = 0\<rparr>,
                   senders = [], remoteCandidates = [], replaceTrackCalls = []\<rparr>,
           name = ''Bob''\<rparr>"
  by (simp add: scenario_defs construction_defs signalling_defs platform_defs registry_defs
        settle_def Let_def)

lemma alice_pranswered_id: "participantId alice_pranswered = ''alice''"
  by (simp add: scenario_defs construction_defs signalling_defs platform_defs registry_defs
        settle_def Let_def)

theorem offer_applied_only_in_legal_state_witness:
  "handleOffer no_faults alice_pranswered bob_offer = Inr alice_pranswered"
  using offer_applied_only_in_legal_state
    [of no_faults alice_pranswered bob_offer "the (peers_get alice_pranswered ''bob'')"]
  by (simp add: alice_pranswered_bob alice_pranswered_id bob_offer_def)



text \<open>
  The claim as it was stated has the record discarded in the first case. Alice has offered
  to Bob and has applied a provisional answer of his: her record is in the state
  have-remote-pranswer. An offer of Bob is then dropped, and the record is still there.
\<close>

theorem out_of_state_record_is_kept:
  "o_to bob_offer = participantId alice_pranswered \<and>
   map_option (\<lambda>pc. signalingState (peer pc)) (peers_get alice_pranswered ''bob'')
     = Some HaveRemotePranswer \<and>
   handleOffer no_faults alice_pranswered bob_offer = Inr alice_pranswered \<and>
   peers_has alice_pranswered ''bob''"
  by (simp add: handleOffer_existing[where pc = "the (peers_get alice_pranswered ''bob'')"]
        handleOffer_try_out_of_state alice_pranswered_bob alice_pranswered_id bob_offer_def
        peers_has_def)


subsection \<open>Glare\<close>

lemma glare_smaller_ignores:
  assumes "o_to d = participantId s" "peers_get s (o_from d) = Some pc"
    "signalingState (peer pc) = HaveLocalOffer" "participantId s < o_from d"
  shows "handleOffer env s d = Inr s"
  using assms by (simp add: handleOffer_def handleOffer_glare_def)

lemma glare_larger_concedes:
  assumes to: "o_to d = participantId s" and rec: "peers_get s (o_from d) = Some pc"
    and st: "signalingState (peer pc) = HaveLocalOffer"
    and larger: "\<not> participantId s < o_from d"
    and off: "sdp_type (o_offer d) = Offer"
    and ok: "\<not> env (SetRemoteDescription (next_conn s))" "\<not> env (CreateAnswer (next_conn s))"
      "\<not> env (SetLocalDescription (next_conn s))"
  shows "\<exists>s' pc'. handleOffer env s d = Inr s' \<and>
     detached s' = detached s @ [rtc_close (peer pc)] \<and>
     peers_get s' (o_from d) = Some pc' \<and>
     conn_id (peer pc') = next_conn s \<and> signalingState (peer pc') = Stable \<and>
     remoteDescription (peer pc') = Some (o_offer d) \<and>
     localDescription (peer pc') =
       Some \<lparr>sdp_type = Answer, sdp_owner = participantId s, sdp_conn = next_conn s\<rparr> \<and>
     sent s' = sent s @
       [AnswerEvent \<lparr>a_from = participantId s, a_to = o_from d,
                     a_answer = \<lparr>sdp_type = Answer, sdp_owner = participantId s,
                                 sdp_conn = next_conn s\<rparr>,
                     a_name = participantName s\<rparr>] \<and>
     participantId s' = participantId s"
proof -
  define s1 where "s1 = peers_delete (with_peer s (o_from d) (rtc_close (peer pc))) (o_from d)"
  define fresh where
    "fresh = attach_local_tracks s1 (new_RTCPeerConnection (participantId s1) (next_conn s1))"
  define rec' where "rec' = \<lparr>peerId = o_from d, peer = fresh, name = o_name d\<rparr>"
  define s2 where "s2 = createPeerConnection env s1 (o_from d) (o_name d) False"
  have s1: "participantId s1 = participantId s" "participantName s1 = participantName s"
    "next_conn s1 = next_conn s" "sent s1 = sent s" "peers_get s1 (o_from d) = None"
    "detached s1 = detached s @ [rtc_close (peer pc)]"
    using rec by (simp_all add: s1_def registry_defs map_of_map_entry delete_conv')
  have fresh: "conn_id fresh = next_conn s" "conn_owner fresh = participantId s"
    "signalingState fresh = Stable"
    by (simp_all add: fresh_def attach_local_tracks_fields new_RTCPeerConnection_def s1)
  have s2_eq: "s2 = peers_set (s1\<lparr>next_conn := Suc (next_conn s1)\<rparr>) (o_from d) rec'"
    by (simp add: s2_def createPeerConnection_answerer rec'_def fresh_def)
  have s2: "peers_get s2 (o_from d) = Some rec'" "participantId s2 = participantId s"
    "participantName s2 = participantName s" "sent s2 = sent s"
    "detached s2 = detached s @ [rtc_close (peer pc)]"
    using s1 by (simp_all add: s2_eq registry_defs update_conv')
  have glare: "handleOffer_glare s d = Some (s1, None)"
    using rec st larger by (simp add: handleOffer_glare_def s1_def)
  have ho: "handleOffer env s d =
      Inr (case handleOffer_try env s2 d rec' of
             (s3, None) \<Rightarrow> s3 | (s3, Some e) \<Rightarrow> peers_delete s3 (o_from d))"
    using to
    by (simp add: handleOffer_def glare Let_def s2_def[symmetric] s2
          split: prod.splits option.splits)
  from handleOffer_try_applies[of rec' d env s2] off ok fresh
  obtain p1 p2 where tried: "handleOffer_try env s2 d rec' =
       (send (with_peer (with_peer s2 (o_from d) p1) (o_from d) p2)
          (AnswerEvent \<lparr>a_from = participantId s2, a_to = o_from d,
                        a_answer = \<lparr>sdp_type = Answer, sdp_owner = participantId s,
                                    sdp_conn = next_conn s\<rparr>,
                        a_name = participantName s2\<rparr>), None)"
    and p2: "signalingState p2 = Stable" "remoteDescription p2 = Some (o_offer d)"
      "localDescription p2 =
         Some \<lparr>sdp_type = Answer, sdp_owner = participantId s, sdp_conn = next_conn s\<rparr>"
      "conn_id p2 = next_conn s"
    by (auto simp: rec'_def)
  define s' where "s' = send (with_peer (with_peer s2 (o_from d) p1) (o_from d) p2)
          (AnswerEvent \<lparr>a_from = participantId s2, a_to = o_from d,
                        a_answer = \<lparr>sdp_type = Answer, sdp_owner = participantId s,
                                    sdp_conn = next_conn s\<rparr>,
                        a_name = participantName s2\<rparr>)"
  have "handleOffer env s d = Inr s'"
    by (simp add: ho tried s'_def)
  moreover have "peers_get s' (o_from d) = Some (rec'\<lparr>peer := p2\<rparr>)"
    by (simp add: s'_def peers_get_simps s2)
  moreover have "detached s' = detached s @ [rtc_close (peer pc)]"
    "sent s' = sent s @
       [AnswerEvent \<lparr>a_from = participantId s, a_to = o_from d,
                     a_answer = \<lparr>sdp_type = Answer, sdp_owner = participantId s,
                                 sdp_conn = next_conn s\<rparr>,
                     a_name = participantName s\<rparr>]"
    "participantId s' = participantId s"
    using s2 by (simp_all add: s'_def send_def with_peer_def)
  ultimately show ?thesis using p2 by simp
qed

lemma handleAnswer_applies:
  assumes "a_to d = participantId s" "peers_get s (a_from d) = Some pc"
    "signalingState (peer pc) = HaveLocalOffer" "sdp_type (a_answer d) = Answer"
    "\<not> env (SetRemoteDescription (conn_id (peer pc)))"
  shows "handleAnswer env s d =
     Inr (with_peer s (a_from d)
            (peer pc\<lparr>signalingState := Stable, remoteDescription := Some (a_answer d)\<rparr>))"
  using assms by (simp add: handleAnswer_def setRemoteDescription_def)

lemma step_participantId: "participantId (step env s ev) = participantId s"
proof (cases "writes_control ev")
  case False
  then show ?thesis using step_control_part[of ev env s] by (simp add: control_part_def)
next
  case True
  have "participantId (handleConnectionFailure s pid nm) = participantId s" for pid nm
    using handleConnectionFailure_control[of s pid nm] by (simp add: control_part_def)
  with True show ?thesis
    by (cases ev)
       (simp_all add: onconnectionstatechange_def fire_DisconnectedGrace_def onChannelError_def
          joinMeeting_def refreshConnection_def settle_def setTimeout_def Let_def
          peers_clear_def close_all_def setupSignaling_def announce_def send_def
          presence_track_def)
qed

text \<open>
  Claim C1, as the code has it. Two participants \<open>a < b\<close> have each a record for the other
  in the local-offer state and each an offer of the other to handle.
  \<^item> The side with the smaller id ignores the offer: its manager is unchanged and its own
    offer stays in flight.
  \<^item> The other side closes its own connection object, makes a new one, applies the offer
    and sends an answer.
  \<^item> Whichever of the two offers is handled first, once the answer is handled the two
    sides are the same pair of managers, and they have one connection: the connection
    object of \<open>a\<close> that made the offer, matched with the new object of \<open>b\<close>.
  The platform is taken to accept the three calls on the new object of \<open>b\<close> and the answer
  on the object of \<open>a\<close>.
\<close>

theorem glare_resolution:
  assumes ids: "participantId sa = a" "participantId sb = b" "a < b"
    and ra: "peers_get sa b = Some pa" "signalingState (peer pa) = HaveLocalOffer"
      "localDescription (peer pa) = Some (o_offer da)"
    and rb: "peers_get sb a = Some pb" "signalingState (peer pb) = HaveLocalOffer"
    and da: "o_from da = a" "o_to da = b" "sdp_type (o_offer da) = Offer"
    and db: "o_from db = b" "o_to db = a"
    and okb: "\<not> envB (SetRemoteDescription (next_conn sb))"
      "\<not> envB (CreateAnswer (next_conn sb))" "\<not> envB (SetLocalDescription (next_conn sb))"
    and oka: "\<not> envA (SetRemoteDescription (conn_id (peer pa)))"
  shows "handleOffer envA sa db = Inr sa \<and>
    (\<exists>sb' ans sa' pa' pb'.
       handleOffer envB sb da = Inr sb' \<and>
       detached sb' = detached sb @ [rtc_close (peer pb)] \<and>
       sent sb' = sent sb @ [AnswerEvent ans] \<and>
       handleAnswer envA sa ans = Inr sa' \<and>
       deliveries envA envB (sa, sb)
         [(SideA, OfferReceived db), (SideB, OfferReceived da), (SideA, AnswerReceived ans)]
         = (sa', sb') \<and>
       deliveries envA envB (sa, sb)
         [(SideB, OfferReceived da), (SideA, OfferReceived db), (SideA, AnswerReceived ans)]
         = (sa', sb') \<and>
       connected_pair (sa', sb') \<and>
       peers_get sa' b = Some pa' \<and> conn_id (peer pa') = conn_id (peer pa) \<and>
       localDescription (peer pa') = Some (o_offer da) \<and>
       peers_get sb' a = Some pb' \<and> conn_id (peer pb') = next_conn sb \<and>
       remoteDescription (peer pb') = Some (o_offer da))"
proof -
  have ignore: "handleOffer envA sa db = Inr sa"
    using ids ra db by (intro glare_smaller_ignores[of db sa pa]) simp_all
  have "\<not> b < a" using ids(3) by simp
  with glare_larger_concedes[of da sb pb envB] ids rb da okb
  obtain sb' pb' where sb': "handleOffer envB sb da = Inr sb'"
    "detached sb' = detached sb @ [rtc_close (peer pb)]"
    "peers_get sb' a = Some pb'" "conn_id (peer pb') = next_conn sb"
    "signalingState (peer pb') = Stable" "remoteDescription (peer pb') = Some (o_offer da)"
    "localDescription (peer pb') =
       Some \<lparr>sdp_type = Answer, sdp_owner = b, sdp_conn = next_conn sb\<rparr>"
    "sent sb' = sent sb @
       [AnswerEvent \<lparr>a_from = b, a_to = a,
                     a_answer = \<lparr>sdp_type = Answer, sdp_owner = b, sdp_conn = next_conn sb\<rparr>,
                     a_name = participantName sb\<rparr>]"
    "participantId sb' = b"
    by auto
  define ans where "ans = \<lparr>a_from = b, a_to = a,
                     a_answer = \<lparr>sdp_type = Answer, sdp_owner = b, sdp_conn = next_conn sb\<rparr>,
                     a_name = participantName sb\<rparr>"
  define pa2 where
    "pa2 = peer pa\<lparr>signalingState := Stable, remoteDescription := Some (a_answer ans)\<rparr>"
  define sa' where "sa' = with_peer sa b pa2"
  have answer: "handleAnswer envA sa ans = Inr sa'"
    using handleAnswer_applies[of ans sa pa envA] ids ra oka
    by (simp add: ans_def sa'_def pa2_def)
  have sa': "peers_get sa' b = Some (pa\<lparr>peer := pa2\<rparr>)"
    using ra by (simp add: sa'_def peers_get_simps)
  have sa'_id: "participantId sa' = a"
    using ids by (simp add: sa'_def with_peer_def)
  have order1: "deliveries envA envB (sa, sb)
         [(SideA, OfferReceived db), (SideB, OfferReceived da), (SideA, AnswerReceived ans)]
         = (sa', sb')"
    by (simp add: deliveries_def settle_def ignore sb' answer)
  have order2: "deliveries envA envB (sa, sb)
         [(SideB, OfferReceived da), (SideA, OfferReceived db), (SideA, AnswerReceived ans)]
         = (sa', sb')"
    by (simp add: deliveries_def settle_def ignore sb' answer)
  have pair: "connected_pair (sa', sb')"
    using sa' sa'_id sb' ra by (simp add: connected_pair_def matched_def pa2_def ans_def)
  have mine: "conn_id (peer (pa\<lparr>peer := pa2\<rparr>)) = conn_id (peer pa)"
    "localDescription (peer (pa\<lparr>peer := pa2\<rparr>)) = Some (o_offer da)"
    using ra by (simp_all add: pa2_def)
  show ?thesis
    using ignore sb' answer order1 order2 pair sa' mine unfolding ans_def[symmetric]
    by blast
qed

lemma alice1_bob:
  "peers_get alice1 ''bob'' =
     Some \<lparr>peerId = ''bob'',
           peer = \<lparr>conn_owner = ''alice'', conn_id = 0, signalingState = HaveLocalOffer,
                   connectionState = ConnNew,
                   localDescription =
                     Some \<lparr>sdp_type = Offer, sdp_owner = ''alice'', sdp_conn = 0\<rparr>,
                   remoteDescription = None, senders = [], remoteCandidates = [],
                   replaceTrackCalls = []\<rparr>,
           name = ''Bob''\<rparr>"
  "participantId alice1 = ''alice''"
  by (simp_all add: scenario_defs construction_defs signalling_defs platform_defs registry_defs
        Let_def)

lemma bob1_alice:
  "peers_get bob1 ''alice'' =
     Some \<lparr>peerId = ''alice'',
           peer = \<lparr>conn_owner = ''bob'', conn_id = 0, signalingState = HaveLocalOffer,
                   connectionState = ConnNew,
                   localDescription =
                     Some \<lparr>sdp_type = Offer, sdp_owner = ''bob'', sdp_conn = 0\<rparr>,
                   remoteDescription = None, senders = [], remoteCandidates = [],
                   replaceTrackCalls = []\<rparr>,
           name = ''Alice''\<rparr>"
  "participantId bob1 = ''bob''" "next_conn bob1 = 1" "participantName bob1 = ''Bob''"
  "sent bob1 = [OfferEvent bob_offer]"
  by (simp_all add: scenario_defs construction_defs signalling_defs platform_defs registry_defs
        Let_def)

theorem glare_resolution_witness:
  "handleOffer no_faults alice1 bob_offer = Inr alice1 \<and>
   (\<exists>sb' ans sa'.
      handleOffer no_faults bob1 alice_offer = Inr sb' \<and>
      sent sb' = sent bob1 @ [AnswerEvent ans] \<and>
      deliveries no_faults no_faults (alice1, bob1)
        [(SideA, OfferReceived bob_offer), (SideB, OfferReceived alice_offer),
         (SideA, AnswerReceived ans)] = (sa', sb') \<and>
      deliveries no_faults no_faults (alice1, bob1)
        [(SideB, OfferReceived alice_offer), (SideA, OfferReceived bob_offer),
         (SideA, AnswerReceived ans)] = (sa', sb') \<and>
      connected_pair (sa', sb'))"
proof -
  have lt: "(''alice'' :: string) < ''bob''" by simp
  have a: "peers_get alice1 ''bob'' = Some (the (peers_get alice1 ''bob''))"
    "signalingState (peer (the (peers_get alice1 ''bob''))) = HaveLocalOffer"
    "localDescription (peer (the (peers_get alice1 ''bob''))) = Some (o_offer alice_offer)"
    by (simp_all add: alice1_bob alice_offer_def)
  have b: "peers_get bob1 ''alice'' = Some (the (peers_get bob1 ''alice''))"
    "signalingState (peer (the (peers_get bob1 ''alice''))) = HaveLocalOffer"
    by (simp_all add: bob1_alice)
  have da: "o_from alice_offer = ''alice''" "o_to alice_offer = ''bob''"
    "sdp_type (o_offer alice_offer) = Offer"
    by (simp_all add: alice_offer_def)
  have db: "o_from bob_offer = ''bob''" "o_to bob_offer = ''alice''"
    by (simp_all add: bob_offer_def)
  have okb: "\<not> no_faults (SetRemoteDescription (next_conn bob1))"
    "\<not> no_faults (CreateAnswer (next_conn bob1))"
    "\<not> no_faults (SetLocalDescription (next_conn bob1))"
    and oka: "\<not> no_faults (SetRemoteDescription (conn_id (peer (the (peers_get alice1 ''bob'')))))"
    by (simp_all add: no_faults_def)
  from glare_resolution
    [where envA = no_faults and envB = no_faults,
     OF alice1_bob(2) bob1_alice(2) lt a b da db okb oka]
  show ?thesis by blast
qed

text \<open>
  The claim as it was stated holds for every order of arrival. It fails when the answer of
  Bob overtakes his offer: Alice applies the answer, her record is stable, and the offer of
  Bob that arrives then is no glare for her; she applies it to the record, which then
  answers the connection object 0 of Bob, which he has closed, while his record holds his
  object 1. The two sides have no connection.
\<close>

theorem stale_offer_after_answer_breaks_pair:
  "\<not> connected_pair
       (deliveries no_faults no_faults (alice1, bob1)
          [(SideB, OfferReceived alice_offer), (SideA, AnswerReceived bob_answer),
           (SideA, OfferReceived bob_offer)]) \<and>
   map_option (\<lambda>pc. remoteDescription (peer pc))
     (peers_get
        (fst (deliveries no_faults no_faults (alice1, bob1)
           [(SideB, OfferReceived alice_offer), (SideA, AnswerReceived bob_answer),
            (SideA, OfferReceived bob_offer)])) ''bob'')
     = Some (Some (o_offer bob_offer)) \<and>
   map_option (\<lambda>pc. conn_id (peer pc))
     (peers_get
        (snd (deliveries no_faults no_faults (alice1, bob1)
           [(SideB, OfferReceived alice_offer), (SideA, AnswerReceived bob_answer),
            (SideA, OfferReceived bob_offer)])) ''alice'')
     = Some 1"
  by (simp add: deliveries_def connected_pair_def matched_def settle_def
        scenario_defs construction_defs signalling_defs platform_defs registry_defs Let_def)

subsection \<open>Reconnection\<close>

lemma retry_ok_control: "control_part s' = control_part s \<Longrightarrow> retry_ok s' = retry_ok s"
  by (simp add: control_part_def retry_ok_def)

lemma retry_ok_handleConnectionFailure:
  assumes "retry_ok s"
  shows "retry_ok (handleConnectionFailure s pid nm)"
proof -
  have "2000 * (reconnectAttempts s + 1) \<in> (\<lambda>k. 2000 * k) ` {1..5}"
    if "reconnectAttempts s < maxReconnectAttempts s"
    using that assms by (intro image_eqI[where x = "reconnectAttempts s + 1"])
      (auto simp: retry_ok_def)
  then show ?thesis
    using assms handleConnectionFailure_control[of s pid nm]
    by (auto simp: retry_ok_def control_part_def)
qed

lemma retry_ok_updates:
  "retry_ok s \<Longrightarrow> retry_ok (s\<lparr>reconnectAttempts := 0\<rparr>)"
  "retry_ok s \<Longrightarrow> \<not> is_Reconnect act \<Longrightarrow> retry_ok (setTimeout s act delay)"
  "retry_ok s \<Longrightarrow> reconnectAttempts s < maxReconnectAttempts s \<Longrightarrow>
     retry_ok (s\<lparr>reconnectAttempts := reconnectAttempts s + 1\<rparr>)"
  by (auto simp: retry_ok_def setTimeout_def)

lemma retry_ok_step: "retry_ok s \<Longrightarrow> retry_ok (step env s ev)"
proof (cases "writes_control ev")
  case False
  assume "retry_ok s"
  with False show ?thesis using retry_ok_control[OF step_control_part] by blast
next
  case True
  assume ok: "retry_ok s"
  note hcf = retry_ok_handleConnectionFailure[OF ok]
  show ?thesis
  proof (cases ev)
    case (ConnectionStateChange cid pid nm st)
    then show ?thesis
      using ok hcf by (simp add: onconnectionstatechange_def retry_ok_updates)
  next
    case (GraceFired still pid nm)
    then show ?thesis using ok hcf by (simp add: fire_DisconnectedGrace_def)
  next
    case ChannelError
    then show ?thesis
      using ok by (auto simp: onChannelError_def Let_def retry_ok_def setTimeout_def)
  next
    case JoinMeeting
    have "retry_ok (announce (s\<lparr>isInitialized := True\<rparr>))"
      using ok by (simp add: retry_ok_def announce_def send_def presence_track_def)
    then show ?thesis
      using ok JoinMeeting by (simp add: joinMeeting_def settle_def retry_ok_updates)
  next
    case RefreshConnection
    have "retry_ok (setupSignaling
        (peers_clear (close_all (s\<lparr>reconnectAttempts := 0\<rparr>))\<lparr>signalingSubscribed := False\<rparr>))"
      using ok by (simp add: retry_ok_def setupSignaling_def peers_clear_def close_all_def)
    then show ?thesis
      using RefreshConnection
      by (simp add: refreshConnection_def settle_def Let_def retry_ok_updates)
  qed (use True in simp_all)
qed

lemma retry_ok_run: "retry_ok s \<Longrightarrow> retry_ok (run s evs)"
  unfolding run_def by (induction evs arbitrary: s) (auto simp: retry_ok_step)

lemma retry_ok_new: "retry_ok (new_WebRTCManager m p n)"
  by (simp add: retry_ok_def new_WebRTCManager_fields)

text \<open>Without a reset, each reconnection that is scheduled costs one unit of the counter.\<close>

lemma budget_step:
  assumes "\<not> is_reset ev"
  shows "length (reconnections (step env s ev)) + reconnectAttempts s
           \<le> length (reconnections s) + reconnectAttempts (step env s ev)"
proof (cases "writes_control ev")
  case False
  then have "control_part (step env s ev) = control_part s" by (rule step_control_part)
  then show ?thesis by (simp add: control_part_def reconnections_def)
next
  case True
  have hcf: "length (reconnections (handleConnectionFailure s pid nm)) + reconnectAttempts s
           \<le> length (reconnections s) + reconnectAttempts (handleConnectionFailure s pid nm)"
    for pid nm
    using handleConnectionFailure_control[of s pid nm]
    by (auto simp: control_part_def reconnections_def)
  from True assms hcf show ?thesis
    by (cases ev)
       (auto simp: onconnectionstatechange_def fire_DisconnectedGrace_def onChannelError_def
          joinMeeting_def settle_def setTimeout_def Let_def announce_def send_def
          presence_track_def reconnections_def)
qed

lemma budget_run:
  assumes "\<forall>(env, ev) \<in> set evs. \<not> is_reset ev"
  shows "length (reconnections (run s evs)) + reconnectAttempts s
           \<le> length (reconnections s) + reconnectAttempts (run s evs)"
  using assms
proof (induction evs arbitrary: s)
  case Nil
  then show ?case by (simp add: run_def)
next
  case (Cons a evs)
  obtain env ev where a: "a = (env, ev)" by (cases a)
  have r: "run s (a # evs) = run (step env s ev) evs" by (simp add: a run_def)
  from Cons.prems a have 1: "\<not> is_reset ev" and 2: "\<forall>(env, ev) \<in> set evs. \<not> is_reset ev"
    by auto
  show ?case
    using budget_step[OF 1, of env s] Cons.IH[OF 2, of "step env s ev"] by (simp add: r)
qed


lemma handleConnectionFailure_drops:
  "\<not> peers_has (handleConnectionFailure s pid nm) pid"
  "peers_get s pid = Some pc \<Longrightarrow>
     detached (handleConnectionFailure s pid nm) = detached s @ [rtc_close (peer pc)]"
  by (auto simp: handleConnectionFailure_def close_and_drop_def Let_def registry_defs
        delete_conv' map_of_map_entry split: option.splits)

text \<open>
  Claim C3, as the code has it. The manager has one retry counter, for all peers and for
  the signalling channel.
  \<^item> A failure below the cap raises the counter to \<open>N\<close> and schedules a reconnection to the
    failed peer after \<open>N\<close> times 2000 ms.
  \<^item> A failure at the cap schedules nothing and leaves the counter.
  \<^item> In both cases the record of the peer is gone, and its connection object is closed.
  \<^item> A connection that reports the state connected, of whichever peer, sets the counter
    to zero.
  \<^item> In every manager that a run from the constructor reaches, the counter is at most
    five and every reconnection was scheduled after 2000, 4000, 6000, 8000 or 10000 ms.
  \<^item> In a run without a reset, at most five minus the counter's value reconnections are
    scheduled, over all peers together.
  \<^item> A peer without a record stays without one as long as no join for it arrives, no
    offer from it arrives and no reconnection to it fires.
\<close>

theorem retry_counter_is_shared:
  "(reconnectAttempts s < maxReconnectAttempts s \<longrightarrow>
      reconnectAttempts (handleConnectionFailure s pid nm) = reconnectAttempts s + 1 \<and>
      timeouts (handleConnectionFailure s pid nm) =
        timeouts s @ [(2000 * (reconnectAttempts s + 1), Reconnect pid nm)]) \<and>
   (\<not> reconnectAttempts s < maxReconnectAttempts s \<longrightarrow>
      reconnectAttempts (handleConnectionFailure s pid nm) = reconnectAttempts s \<and>
      timeouts (handleConnectionFailure s pid nm) = timeouts s) \<and>
   \<not> peers_has (handleConnectionFailure s pid nm) pid \<and>
   (peers_get s pid = Some pc \<longrightarrow>
      detached (handleConnectionFailure s pid nm) = detached s @ [rtc_close (peer pc)]) \<and>
   reconnectAttempts (onconnectionstatechange s cid pid' nm' Connected) = 0 \<and>
   retry_ok (run (new_WebRTCManager m p n) evs) \<and>
   (retry_ok s \<and> (\<forall>(env, ev) \<in> set evs. \<not> is_reset ev) \<longrightarrow>
      length (reconnections (run s evs)) \<le> length (reconnections s) + (5 - reconnectAttempts s)) \<and>
   (\<not> peers_has s pid \<and> (\<forall>(env, ev) \<in> set evs. \<not> may_create pid ev) \<longrightarrow>
      \<not> peers_has (run s evs) pid)"
proof (intro conjI impI)
  assume a: "retry_ok s \<and> (\<forall>(env, ev) \<in> set evs. \<not> is_reset ev)"
  then have "retry_ok (run s evs)" by (simp add: retry_ok_run)
  then have "reconnectAttempts (run s evs) \<le> 5" by (simp add: retry_ok_def)
  moreover have "reconnectAttempts s \<le> 5" using a by (simp add: retry_ok_def)
  ultimately show "length (reconnections (run s evs))
      \<le> length (reconnections s) + (5 - reconnectAttempts s)"
    using budget_run[of evs s] a by simp
next
  show "retry_ok (run (new_WebRTCManager m p n) evs)"
    by (intro retry_ok_run retry_ok_new)
next
  assume "\<not> peers_has s pid \<and> (\<forall>(env, ev) \<in> set evs. \<not> may_create pid ev)"
  then show "\<not> peers_has (run s evs) pid" by (simp add: absent_until_created)
next
  show "\<not> peers_has (handleConnectionFailure s pid nm) pid"
    by (rule handleConnectionFailure_drops)
next
  assume "peers_get s pid = Some pc"
  then show "detached (handleConnectionFailure s pid nm) = detached s @ [rtc_close (peer pc)]"
    by (rule handleConnectionFailure_drops)
qed (use handleConnectionFailure_control[of s pid nm] in
      \<open>simp_all add: control_part_def onconnectionstatechange_def\<close>)

lemma alice1_control:
  "reconnectAttempts alice1 = 0" "maxReconnectAttempts alice1 = 5" "timeouts alice1 = []"
  "detached alice1 = []"
  by (simp_all add: scenario_defs construction_defs signalling_defs platform_defs registry_defs
        Let_def)

theorem retry_counter_is_shared_witness:
  "reconnectAttempts (handleConnectionFailure alice1 ''bob'' ''Bob'') = 1 \<and>
   timeouts (handleConnectionFailure alice1 ''bob'' ''Bob'') = [(2000, Reconnect ''bob'' ''Bob'')] \<and>
   \<not> peers_has (handleConnectionFailure alice1 ''bob'' ''Bob'') ''bob'' \<and>
   detached (handleConnectionFailure alice1 ''bob'' ''Bob'') =
     [rtc_close (peer (the (peers_get alice1 ''bob'')))] \<and>
   length (reconnections
     (run alice1 [(no_faults, ConnectionStateChange 0 ''bob'' ''Bob'' Failed)])) \<le> 5 \<and>
   timeouts (handleConnectionFailure (alice1\<lparr>reconnectAttempts := 5\<rparr>) ''carol'' ''Carol'') = [] \<and>
   \<not> peers_has (run (handleConnectionFailure alice1 ''bob'' ''Bob'')
                  [(no_faults, UserLeft ''bob'')]) ''bob''"
proof -
  have ok: "retry_ok alice1"
    by (simp add: retry_ok_def alice1_control)
  have rec: "peers_get alice1 ''bob'' = Some (the (peers_get alice1 ''bob''))"
    by (simp add: alice1_bob)
  note first = retry_counter_is_shared
    [of alice1 "''bob''" "''Bob''" "the (peers_get alice1 ''bob'')" 0 "''bob''" "''Bob''"
        "''m''" "''alice''" "''Alice''"
        "[(no_faults, ConnectionStateChange 0 ''bob'' ''Bob'' Failed)]"]
  note capped = retry_counter_is_shared
    [of "alice1\<lparr>reconnectAttempts := 5\<rparr>" "''carol''" "''Carol''"
        "the (peers_get alice1 ''bob'')" 0 "''bob''" "''Bob''" "''m''" "''alice''" "''Alice''"
        "[]"]
  note later = retry_counter_is_shared
    [of "handleConnectionFailure alice1 ''bob'' ''Bob''" "''bob''" "''Bob''"
        "the (peers_get alice1 ''bob'')" 0 "''bob''" "''Bob''" "''m''" "''alice''" "''Alice''"
        "[(no_faults, UserLeft ''bob'')]"]
  note below = first[THEN conjunct1]
  note gone = first[THEN conjunct2, THEN conjunct2, THEN conjunct1]
  note closed = first[THEN conjunct2, THEN conjunct2, THEN conjunct2, THEN conjunct1]
  note budget = first[THEN conjunct2, THEN conjunct2, THEN conjunct2, THEN conjunct2,
      THEN conjunct2, THEN conjunct2, THEN conjunct1]
  note at_cap = capped[THEN conjunct2, THEN conjunct1]
  note absent = later[THEN conjunct2, THEN conjunct2, THEN conjunct2, THEN conjunct2,
      THEN conjunct2, THEN conjunct2, THEN conjunct2]
  have 1: "reconnectAttempts (handleConnectionFailure alice1 ''bob'' ''Bob'') = 1 \<and>
    timeouts (handleConnectionFailure alice1 ''bob'' ''Bob'') = [(2000, Reconnect ''bob'' ''Bob'')]"
    using below by (simp add: alice1_control)
  have det: "detached (handleConnectionFailure alice1 ''bob'' ''Bob'') =
       [rtc_close (peer (the (peers_get alice1 ''bob'')))]"
    using closed rec by (simp add: alice1_control)
  have 2: "length (reconnections
     (run alice1 [(no_faults, ConnectionStateChange 0 ''bob'' ''Bob'' Failed)])) \<le> 5"
    using budget ok by (simp add: reconnections_def alice1_control)
  have 3: "timeouts (handleConnectionFailure (alice1\<lparr>reconnectAttempts := 5\<rparr>) ''carol'' ''Carol'')
      = []"
    using at_cap by (simp add: alice1_control)
  have 4: "\<not> peers_has (run (handleConnectionFailure alice1 ''bob'' ''Bob'')
                  [(no_faults, UserLeft ''bob'')]) ''bob''"
    using absent gone by simp
  show ?thesis using gone 1 det 2 3 4 by (intro conjI) simp_all
qed

text \<open>
  The claim as it was stated counts for every peer. In the run \<open>retry_trace\<close> Bob joins
  once and no connection to him is ever established, yet six reconnections to him are
  scheduled, the sixth 2000 ms after the failure: the connection of Carol has reset the
  counter they share.
\<close>

theorem six_reconnections_to_one_peer:
  "map fst (reconnections_to (run alice0 retry_trace) ''bob'') =
     [2000, 4000, 6000, 8000, 10000, 2000]"
  by (simp add: retry_trace_def run_def reconnections_to_def alice0_def
        onconnectionstatechange_def fire_Reconnect_def settle_def
        construction_defs signalling_defs platform_defs registry_defs Let_def)

subsection \<open>Replacing the outgoing video track\<close>

lemma replaceVideoTrack_signalling:
  "(replaceVideoTrack p t)\<lparr>senders := [], replaceTrackCalls := []\<rparr> =
     p\<lparr>senders := [], replaceTrackCalls := []\<rparr>"
  by (simp add: replaceVideoTrack_def)

lemma forEach_replace_signalling:
  "registry_signalling (peers_forEach s (\<lambda>p. replaceVideoTrack p t)) = registry_signalling s"
  by (simp add: registry_signalling_def peers_forEach_def signalling_part_def
        replaceVideoTrack_signalling case_prod_unfold comp_def)

lemma signalling_updates:
  "registry_signalling (s\<lparr>localStream := ls\<rparr>) = registry_signalling s"
  "registry_signalling (s\<lparr>backgroundBlurEnabled := b\<rparr>) = registry_signalling s"
  by (simp_all add: registry_signalling_def)

lemma signalling_media:
  "registry_signalling (settle s (startScreenShare s res')) = registry_signalling s"
  "registry_signalling (screenShare_onended s) = registry_signalling s"
  "registry_signalling (applyBackgroundBlur s supported t) = registry_signalling s"
  "registry_signalling (removeBackgroundBlur s res) = registry_signalling s"
  by (simp_all add: startScreenShare_def screenShare_onended_def applyBackgroundBlur_def
        removeBackgroundBlur_def settle_def Let_def forEach_replace_signalling
        signalling_updates split: option.splits sum.splits)

lemma signalling_toggleBackgroundBlur:
  "registry_signalling (settle s (toggleBackgroundBlur s en supported t res)) =
     registry_signalling s"
  by (simp add: toggleBackgroundBlur_def settle_def Let_def signalling_media signalling_updates
        split: option.splits)

lemma sent_forEach: "sent (peers_forEach s f) = sent s"
  by (simp add: peers_forEach_def)

lemma sent_media:
  "sent (settle s (startScreenShare s res')) = sent s"
  "sent (screenShare_onended s) = sent s"
  "sent (settle s (toggleBackgroundBlur s en supported t res)) = sent s"
  by (simp_all add: startScreenShare_def screenShare_onended_def toggleBackgroundBlur_def
        applyBackgroundBlur_def removeBackgroundBlur_def settle_def Let_def sent_forEach
        split: option.splits sum.splits)

lemma signalling_gives:
  assumes "registry_signalling s' = registry_signalling s"
  shows "map fst (peers s') = map fst (peers s)" "negotiation_states s' = negotiation_states s"
proof -
  have "map fst (registry_signalling x) = map fst (peers x)" for x
    by (simp add: registry_signalling_def case_prod_unfold comp_def)
  then show "map fst (peers s') = map fst (peers s)" using assms by metis
  have "map (\<lambda>(k, pc). (k, signalingState (peer pc))) (registry_signalling x)
      = negotiation_states x" for x
    by (simp add: registry_signalling_def negotiation_states_def signalling_part_def
          case_prod_unfold comp_def)
  then show "negotiation_states s' = negotiation_states s" using assms by metis
qed


lemma untouched_media:
  "signalling_untouched s (settle s (startScreenShare s res'))"
  "signalling_untouched s (screenShare_onended s)"
  "signalling_untouched s (settle s (toggleBackgroundBlur s en supported t res))"
  unfolding signalling_untouched_def
  using signalling_gives[OF signalling_media(1)] signalling_gives[OF signalling_media(2)]
    signalling_gives[OF signalling_toggleBackgroundBlur]
  by (simp_all add: sent_media signalling_media signalling_toggleBackgroundBlur)

lemma replace_first_video_keeps:
  "kind v = Video \<Longrightarrow>
   list_ex (\<lambda>u. case u of None \<Rightarrow> False | Some t \<Rightarrow> kind t = Video) ss \<Longrightarrow>
   list_ex (\<lambda>u. case u of None \<Rightarrow> False | Some t \<Rightarrow> kind t = Video)
     (replace_first_video ss (Some v))"
  by (induction ss "Some v" rule: replace_first_video.induct) auto

lemma replaceVideoTrack_calls:
  "replaceTrackCalls (replaceVideoTrack p t) =
     (if has_video_sender p then replaceTrackCalls p @ [t] else replaceTrackCalls p)"
  by (simp add: replaceVideoTrack_def)

lemma replaceVideoTrack_keeps:
  "kind v = Video \<Longrightarrow>
   has_video_sender (replaceVideoTrack p (Some v)) = has_video_sender p"
  by (auto simp: replaceVideoTrack_def has_video_sender_def replace_first_video_keeps)

lemma first_video_kind: "first_track (getVideoTracks ms) = Some v \<Longrightarrow> kind v = Video"
proof -
  assume "first_track (getVideoTracks ms) = Some v"
  then have "v \<in> set (getVideoTracks ms)"
    by (auto simp: first_track_def split: list.splits)
  then show ?thesis by (simp add: getVideoTracks_def)
qed

lemma share_then_stop:
  assumes v: "first_track (getVideoTracks scr) = Some v"
    and cam: "localStream s = Some ls" "first_track (getVideoTracks ls) = Some c"
  shows "\<exists>s1. startScreenShare s (Inr scr) = Inr s1 \<and>
     substitutions (screenShare_onended s1) =
       map (\<lambda>(k, pc). (k, if has_video_sender (peer pc)
                          then replaceTrackCalls (peer pc) @ [Some v, Some c]
                          else replaceTrackCalls (peer pc)))
         (peers s)"
proof -
  define s1 where "s1 = peers_forEach s (\<lambda>p. replaceVideoTrack p (Some v))"
  have 1: "startScreenShare s (Inr scr) = Inr s1"
    using v by (simp add: startScreenShare_def s1_def)
  have 2: "screenShare_onended s1 = peers_forEach s1 (\<lambda>p. replaceVideoTrack p (Some c))"
    using cam by (simp add: screenShare_onended_def s1_def peers_forEach_def)
  have kv: "kind v = Video" using v by (rule first_video_kind)
  have "substitutions (screenShare_onended s1) =
       map (\<lambda>(k, pc). (k, if has_video_sender (peer pc)
                          then replaceTrackCalls (peer pc) @ [Some v, Some c]
                          else replaceTrackCalls (peer pc)))
         (peers s)"
    unfolding 2
    by (simp add: s1_def substitutions_def peers_forEach_def case_prod_unfold comp_def
          replaceVideoTrack_calls replaceVideoTrack_keeps[OF kv])
  with 1 show ?thesis by blast
qed

text \<open>
  Claim C5, as the code has it. Starting a screen share, the end of a screen share and
  switching the background blur on or off hand nothing to the signalling channel and leave
  the registry as it is but for the tracks of the senders: the same keys in the same
  order, the same connection objects, each in the negotiation state it was in. When a
  screen share starts and the handler that \<^verbatim>\<open>startScreenShare\<close> installed on the captured
  track then runs, with a camera track in the local stream, the track is replaced twice
  (first by the screen track, then by the camera track) on every connection that has a
  sender with a video track, and not at all on a connection that has none. Nothing is
  said here of a stop that does not run that handler.
\<close>

theorem media_substitution_frame:
  "signalling_untouched s (settle s (startScreenShare s res')) \<and>
   signalling_untouched s (screenShare_onended s) \<and>
   signalling_untouched s (settle s (toggleBackgroundBlur s en supported t res)) \<and>
   (first_track (getVideoTracks scr) = Some v \<and> localStream s = Some ls \<and>
    first_track (getVideoTracks ls) = Some c \<longrightarrow>
      (\<exists>s1. startScreenShare s (Inr scr) = Inr s1 \<and>
         substitutions (screenShare_onended s1) =
           map (\<lambda>(k, pc). (k, if has_video_sender (peer pc)
                              then replaceTrackCalls (peer pc) @ [Some v, Some c]
                              else replaceTrackCalls (peer pc)))
             (peers s)))"
  using untouched_media share_then_stop by blast

lemma alice_then_carol_eval:
  "localStream alice_then_carol = Some camera"
  "map (\<lambda>(k, pc). (k, has_video_sender (peer pc), replaceTrackCalls (peer pc)))
     (peers alice_then_carol) = [(''bob'', False, []), (''carol'', True, [])]"
  by (simp_all add: alice_then_carol_def alice_with_camera_def camera_def initializeMedia_def
        settle_def has_video_sender_def
        scenario_defs construction_defs signalling_defs platform_defs registry_defs Let_def)

theorem media_substitution_frame_witness:
  "\<exists>s1. startScreenShare alice_then_carol (Inr screen) = Inr s1 \<and>
     signalling_untouched alice_then_carol s1 \<and>
     signalling_untouched s1 (screenShare_onended s1) \<and>
     substitutions (screenShare_onended s1) =
       [(''bob'', []),
        (''carol'',
         [Some \<lparr>kind = Video, label = ''screen'', enabled = True, stopped = False\<rparr>,
          Some \<lparr>kind = Video, label = ''camera'', enabled = True, stopped = False\<rparr>])]"
proof -
  have scr: "first_track (getVideoTracks screen) =
      Some \<lparr>kind = Video, label = ''screen'', enabled = True, stopped = False\<rparr>"
    and cam: "first_track (getVideoTracks camera) =
      Some \<lparr>kind = Video, label = ''camera'', enabled = True, stopped = False\<rparr>"
    by (simp_all add: screen_def camera_def getVideoTracks_def first_track_def)
  note frame = media_substitution_frame
    [of alice_then_carol "Inr screen" False False
        "\<lparr>kind = Video, label = ''canvas'', enabled = True, stopped = False\<rparr>" "Inl NotAllowedError"
        screen "\<lparr>kind = Video, label = ''screen'', enabled = True, stopped = False\<rparr>" camera
        "\<lparr>kind = Video, label = ''camera'', enabled = True, stopped = False\<rparr>"]
  from frame scr cam alice_then_carol_eval(1)
  obtain s1 where s1: "startScreenShare alice_then_carol (Inr screen) = Inr s1"
    and subs: "substitutions (screenShare_onended s1) =
           map (\<lambda>(k, pc). (k, if has_video_sender (peer pc)
                then replaceTrackCalls (peer pc) @
                  [Some \<lparr>kind = Video, label = ''screen'', enabled = True, stopped = False\<rparr>,
                   Some \<lparr>kind = Video, label = ''camera'', enabled = True, stopped = False\<rparr>]
                else replaceTrackCalls (peer pc)))
             (peers alice_then_carol)"
    by blast
  have "map (\<lambda>(k, pc). (k, if has_video_sender (peer pc) then replaceTrackCalls (peer pc) @ xs
                         else replaceTrackCalls (peer pc))) ps =
        map (\<lambda>(k, h, r). (k, if h then r @ xs else r))
          (map (\<lambda>(k, pc). (k, has_video_sender (peer pc), replaceTrackCalls (peer pc))) ps)"
    for xs :: "track option list" and ps :: "(string \<times> PeerConnection) list"
    by (simp add: case_prod_unfold comp_def)
  note viewed = this
  have list: "substitutions (screenShare_onended s1) =
       [(''bob'', []),
        (''carol'',
         [Some \<lparr>kind = Video, label = ''screen'', enabled = True, stopped = False\<rparr>,
          Some \<lparr>kind = Video, label = ''camera'', enabled = True, stopped = False\<rparr>])]"
    unfolding subs viewed alice_then_carol_eval(2) by simp
  have u1: "signalling_untouched alice_then_carol s1"
    using frame s1 by (simp add: settle_def)
  have u2: "signalling_untouched s1 (screenShare_onended s1)"
    by (rule untouched_media)
  show ?thesis using s1 u1 u2 list by blast
qed

text \<open>
  The claim as it was stated has two substitutions for every peer. The connection of Alice
  to Bob was made before her camera was on and has no sender: sharing the screen and
  stopping replaces nothing on it.
\<close>

theorem no_substitution_without_video_sender:
  "substitutions alice_shared_and_stopped = [(''bob'', [])]"
  by (simp add: alice_shared_and_stopped_def alice_with_camera_def camera_def screen_def
        substitutions_def initializeMedia_def startScreenShare_def screenShare_onended_def
        settle_def peers_forEach_def replaceVideoTrack_def has_video_sender_def
        getVideoTracks_def first_track_def
        scenario_defs construction_defs signalling_defs platform_defs registry_defs Let_def)

end
